theory Spec2Isabelle
  imports Main
begin

section \<open>JavaScript values, failures and conversions\<close>

text \<open>
  Every \<^verbatim>\<open>throw new Error(msg)\<close> of the sources, and every rejection of an external
  call, is a value \<open>Error msg\<close>; the sources only ever read the \<^verbatim>\<open>message\<close> of what
  they catch. A fallible computation returns \<open>js_error + 'a\<close>, \<open>Inl\<close> being the throw.
\<close>

datatype js_error = Error (message: string)

text \<open>
  The values that \<^verbatim>\<open>response.json()\<close> can deliver and that the field \<^verbatim>\<open>raw: any\<close>
  can hold. A JavaScript number that is an integer of magnitude below \<open>2^53\<close> is a
  \<open>JNumber\<close>. A larger integral number is a \<open>JLargeNumber\<close>: the integer it denotes
  and the string the engine prints for it (its shortest round-trip digits, padded with
  zeros or in exponent form), which is not computed here. A number that is not integral
  is a \<open>JFraction\<close>. Strings are lists of code units below 256.
\<close>

datatype jsval =
    JUndefined
  | JNull
  | JBool bool
  | JNumber int
  | JLargeNumber int string
  | JFraction
  | JString string
  | JBigInt int
  | JArray "jsval list"
  | JObject "(string \<times> jsval) list"

text \<open>The failures of built-in operations; their message texts are the engine's own.\<close>

datatype builtin_failure =
    CannotConvert jsval
  | PropertyOfNullish jsval string

subsection \<open>Truthiness of optional strings: the operator \<^verbatim>\<open>||\<close>\<close>

text \<open>
  An optional string field is \<open>None\<close> when it is \<^verbatim>\<open>undefined\<close>. \<^verbatim>\<open>a || b\<close> yields
  \<^verbatim>\<open>a\<close> when \<^verbatim>\<open>a\<close> is truthy, that is, a non-empty string, and \<^verbatim>\<open>b\<close> otherwise.
\<close>

definition truthy :: "string option \<Rightarrow> bool" where
  "truthy a = (case a of None \<Rightarrow> False | Some s \<Rightarrow> s \<noteq> [])"

definition or_else :: "string option \<Rightarrow> string option \<Rightarrow> string option" where
  "or_else a b = (if truthy a then a else b)"

definition or_default :: "string option \<Rightarrow> string \<Rightarrow> string" where
  "or_default a d = (case a of None \<Rightarrow> d | Some s \<Rightarrow> if s \<noteq> [] then s else d)"

subsection \<open>\<^verbatim>\<open>BigInt.prototype.toString()\<close>: base 10\<close>

function nat_digits :: "nat \<Rightarrow> string" where
  "nat_digits n =
     (if n < 10 then [''0123456789'' ! n]
      else nat_digits (n div 10) @ [''0123456789'' ! (n mod 10)])"
  by pat_completeness auto
termination
  by (relation "measure (\<lambda>n. n)") auto

declare nat_digits.simps [simp del]

definition bigint_toString :: "int \<Rightarrow> string" where
  "bigint_toString i =
     (if i < 0 then CHR ''-'' # nat_digits (nat (- i)) else nat_digits (nat i))"

subsection \<open>\<^verbatim>\<open>BigInt(v)\<close>\<close>

definition is_whitespace :: "char \<Rightarrow> bool" where
  "is_whitespace c = ((of_char c :: nat) \<in> {9, 10, 11, 12, 13, 32, 160})"

definition js_trim :: "string \<Rightarrow> string" where
  "js_trim s = rev (dropWhile is_whitespace (rev (dropWhile is_whitespace s)))"

definition digit_value :: "char \<Rightarrow> nat option" where
  "digit_value c =
     (let n = (of_char c :: nat) in
      if 48 \<le> n \<and> n \<le> 57 then Some (n - 48)
      else if 97 \<le> n \<and> n \<le> 102 then Some (n - 87)
      else if 65 \<le> n \<and> n \<le> 70 then Some (n - 55)
      else None)"

fun parse_digits :: "nat \<Rightarrow> string \<Rightarrow> nat \<Rightarrow> nat option" where
  "parse_digits b [] acc = Some acc"
| "parse_digits b (c # cs) acc =
     (case digit_value c of
        None \<Rightarrow> None
      | Some d \<Rightarrow> if d < b then parse_digits b cs (acc * b + d) else None)"

definition parse_literal :: "nat \<Rightarrow> string \<Rightarrow> nat option" where
  "parse_literal b s = (if s = [] then None else parse_digits b s 0)"

text \<open>
  StringToBigInt of ECMAScript: surrounding white space is dropped; the empty string is
  \<open>0\<close>; a decimal literal may carry a sign; a literal with prefix \<^verbatim>\<open>0x\<close>, \<^verbatim>\<open>0o\<close>
  or \<^verbatim>\<open>0b\<close> may not; anything else is no BigInt.
\<close>

definition StringToBigInt :: "string \<Rightarrow> int option" where
  "StringToBigInt str =
     (case js_trim str of
        [] \<Rightarrow> Some 0
      | c # rest \<Rightarrow>
          if c = CHR ''-'' then map_option (\<lambda>n. - int n) (parse_literal 10 rest)
          else if c = CHR ''+'' then map_option int (parse_literal 10 rest)
          else if c = CHR ''0'' \<and> rest \<noteq> [] \<and> hd rest \<in> {CHR ''x'', CHR ''X''}
            then map_option int (parse_literal 16 (tl rest))
          else if c = CHR ''0'' \<and> rest \<noteq> [] \<and> hd rest \<in> {CHR ''o'', CHR ''O''}
            then map_option int (parse_literal 8 (tl rest))
          else if c = CHR ''0'' \<and> rest \<noteq> [] \<and> hd rest \<in> {CHR ''b'', CHR ''B''}
            then map_option int (parse_literal 2 (tl rest))
          else map_option int (parse_literal 10 (c # rest)))"

text \<open>
  ToString, as far as BigInt needs it. An integer below \<open>2^53\<close> prints all its digits;
  a larger one prints the string it comes with. \<open>None\<close> stands for the print of a
  number with a fraction, which is never a BigInt literal (and for a \<open>JNumber\<close> out of
  its range, which stands for no number). An array prints its elements joined by commas,
  \<^verbatim>\<open>null\<close> and \<^verbatim>\<open>undefined\<close> as the empty string.
\<close>

fun join_commas :: "string option list \<Rightarrow> string option" where
  "join_commas [] = Some []"
| "join_commas [x] = x"
| "join_commas (x # y # ys) =
     (case (x, join_commas (y # ys)) of
        (Some a, Some b) \<Rightarrow> Some (a @ '','' @ b)
      | _ \<Rightarrow> None)"

fun ToString :: "jsval \<Rightarrow> string option" where
  "ToString JUndefined = Some ''undefined''"
| "ToString JNull = Some ''null''"
| "ToString (JBool b) = Some (if b then ''true'' else ''false'')"
| "ToString (JNumber n) =
     (if \<bar>n\<bar> < 2 ^ 53 then Some (bigint_toString n) else None)"
| "ToString (JLargeNumber n printed) = Some printed"
| "ToString JFraction = None"
| "ToString (JString s) = Some s"
| "ToString (JBigInt n) = Some (bigint_toString n)"
| "ToString (JArray xs) =
     join_commas (map (\<lambda>v. if v = JUndefined \<or> v = JNull then Some [] else ToString v) xs)"
| "ToString (JObject kvs) = Some ''[object Object]''"

text \<open>
  \<^verbatim>\<open>BigInt(v)\<close>: a number must be integral, a boolean is 0 or 1, a string is parsed,
  an array or object goes through its string form, \<^verbatim>\<open>undefined\<close> and \<^verbatim>\<open>null\<close> throw.
\<close>

definition BigInt :: "jsval \<Rightarrow> builtin_failure + int" where
  "BigInt v =
     (case v of
        JNumber n \<Rightarrow> Inr n
      | JLargeNumber n printed \<Rightarrow> Inr n
      | JBool b \<Rightarrow> Inr (if b then 1 else 0)
      | JBigInt n \<Rightarrow> Inr n
      | JString s \<Rightarrow>
          (case StringToBigInt s of None \<Rightarrow> Inl (CannotConvert v) | Some n \<Rightarrow> Inr n)
      | JArray xs \<Rightarrow>
          (case ToString v of
             None \<Rightarrow> Inl (CannotConvert v)
           | Some s \<Rightarrow>
               (case StringToBigInt s of None \<Rightarrow> Inl (CannotConvert v) | Some n \<Rightarrow> Inr n))
      | _ \<Rightarrow> Inl (CannotConvert v))"

text \<open>The property read \<^verbatim>\<open>data.value\<close>: it throws on \<^verbatim>\<open>null\<close> and \<^verbatim>\<open>undefined\<close>.\<close>

definition get_property :: "jsval \<Rightarrow> string \<Rightarrow> builtin_failure + jsval" where
  "get_property v k =
     (case v of
        JUndefined \<Rightarrow> Inl (PropertyOfNullish v k)
      | JNull \<Rightarrow> Inl (PropertyOfNullish v k)
      | JObject kvs \<Rightarrow> (case map_of kvs k of None \<Rightarrow> Inr JUndefined | Some x \<Rightarrow> Inr x)
      | _ \<Rightarrow> Inr JUndefined)"

subsection \<open>\<^verbatim>\<open>String.prototype.toLowerCase()\<close>\<close>

text \<open>On code units below 256: the letters A to Z and the upper-case letters of Latin-1.\<close>

definition lower_char :: "char \<Rightarrow> char" where
  "lower_char c =
     (let n = (of_char c :: nat) in
      if (65 \<le> n \<and> n \<le> 90) \<or> (192 \<le> n \<and> n \<le> 222 \<and> n \<noteq> 215)
      then char_of (n + 32) else c)"

definition toLowerCase :: "string \<Rightarrow> string" where
  "toLowerCase s = map lower_char s"

section \<open>The data of the protocol\<close>

record FhevmConfig =
  network :: "string option"
  cfg_gatewayUrl :: "string option"
  cfg_publicKey :: "string option"
  cfg_kmsContractAddress :: "string option"
  cfg_aclContractAddress :: "string option"

text \<open>The object that \<^verbatim>\<open>createFhevmInstance\<close> hands to the engine's \<^verbatim>\<open>createInstance\<close>.\<close>

record instance_args =
  arg_kmsContractAddress :: "string option"
  arg_aclContractAddress :: "string option"
  arg_gatewayUrl :: "string option"
  arg_publicKey :: "string option"

text \<open>
  The engine's instance: the arguments it was created with, and what its two methods
  \<^verbatim>\<open>hasKeypair()\<close> and \<^verbatim>\<open>getPublicKey()\<close> answer.
\<close>

record FhevmInstance =
  created_with :: instance_args
  hasKeypair :: bool
  getPublicKey :: string

datatype handle = HBigInt int | HString string

record DecryptOptions =
  contractAddress :: string
  userAddress :: string
  gatewayUrl :: "string option"

record DecryptResult =
  res_value :: jsval
  res_raw :: jsval

record EIP712Signature =
  signature :: string
  publicKey :: string

record eip712_domain =
  domain_name :: string
  domain_version :: string
  chainId :: "int option"
  verifyingContract :: string

record typed_data =
  td_domain :: eip712_domain
  td_types :: "(string \<times> (string \<times> string) list) list"
  td_message :: "(string \<times> jsval) list"

text \<open>A request of \<^verbatim>\<open>fetch\<close>; \<open>body\<close> is the value given to \<^verbatim>\<open>JSON.stringify\<close>.\<close>

record http_request =
  url :: string
  http_method :: string
  headers :: "(string \<times> string) list"
  body :: jsval

text \<open>A response; \<open>json\<close> is what \<^verbatim>\<open>response.json()\<close> settles to.\<close>

record http_response =
  status :: nat
  statusText :: string
  json :: "js_error + jsval"

text \<open>\<^verbatim>\<open>response.ok\<close> of the Fetch standard: a status from 200 to 299.\<close>

definition ok :: "http_response \<Rightarrow> bool" where
  "ok r = (200 \<le> status r \<and> status r \<le> 299)"

section \<open>The outside world\<close>

text \<open>
  Each call that leaves the program (engine bootstrap, instance construction, the wallet,
  the gateway) is recorded as an event, in order. The world answers a call as a function
  of the events so far, so it may answer the same request differently the second time.
  \<open>ethereum\<close> says whether \<^verbatim>\<open>window.ethereum\<close> is there, and \<open>wallet_chainId\<close> is the
  chain id of the network that wallet is connected to.
\<close>

datatype event =
    InitFhevm
  | CreateInstance instance_args
  | GetSigner
  | SignTypedData typed_data
  | Fetch http_request

record env =
  engine_message :: "builtin_failure \<Rightarrow> string"
  initFhevm :: "event list \<Rightarrow> js_error + unit"
  createInstance :: "event list \<Rightarrow> instance_args \<Rightarrow> js_error + FhevmInstance"
  ethereum :: bool
  wallet_chainId :: int
  getSigner :: "event list \<Rightarrow> js_error + unit"
  signTypedData :: "event list \<Rightarrow> typed_data \<Rightarrow> js_error + string"
  fetch :: "event list \<Rightarrow> http_request \<Rightarrow> js_error + http_response"
  verifyMessage :: "string \<Rightarrow> string \<Rightarrow> js_error + string"

text \<open>An asynchronous computation: from the events so far to its outcome and the events after.\<close>

type_synonym 'a io = "event list \<Rightarrow> (js_error + 'a) \<times> event list"

definition ret :: "'a \<Rightarrow> 'a io" where
  "ret x tr = (Inr x, tr)"

definition throw :: "js_error \<Rightarrow> 'a io" where
  "throw e tr = (Inl e, tr)"

definition bind_io :: "'a io \<Rightarrow> ('a \<Rightarrow> 'b io) \<Rightarrow> 'b io" where
  "bind_io m f tr = (case m tr of (Inl e, tr') \<Rightarrow> (Inl e, tr') | (Inr x, tr') \<Rightarrow> f x tr')"

text \<open>\<^verbatim>\<open>try { m } catch (error) { throw new Error(prefix + error.message) }\<close>\<close>

definition catch_rethrow :: "string \<Rightarrow> 'a io \<Rightarrow> 'a io" where
  "catch_rethrow prefix m tr =
     (case m tr of
        (Inl e, tr') \<Rightarrow> (Inl (Error (prefix @ message e)), tr')
      | (Inr x, tr') \<Rightarrow> (Inr x, tr'))"

definition call :: "(event list \<Rightarrow> js_error + 'a) \<Rightarrow> event \<Rightarrow> 'a io" where
  "call answer ev tr = (answer tr, tr @ [ev])"

definition builtin :: "env \<Rightarrow> builtin_failure + 'a \<Rightarrow> 'a io" where
  "builtin w r tr =
     (case r of Inl f \<Rightarrow> (Inl (Error (engine_message w f)), tr) | Inr x \<Rightarrow> (Inr x, tr))"

definition settle :: "js_error + 'a \<Rightarrow> 'a io" where
  "settle r tr = (r, tr)"

section \<open>Decryption (core/decrypt.ts)\<close>

text \<open>
  \<^verbatim>\<open>signEIP712(domain, types, message, userAddress)\<close>: with a browser wallet it asks the
  provider for a signer and has it sign the typed data; without one it throws. The
  parameter \<^verbatim>\<open>userAddress\<close> is not read.
\<close>

definition signEIP712 ::
  "env \<Rightarrow> eip712_domain \<Rightarrow> (string \<times> (string \<times> string) list) list \<Rightarrow>
   (string \<times> jsval) list \<Rightarrow> string \<Rightarrow> string io" where
  "signEIP712 w domain tys msg user =
     (if ethereum w then
        bind_io (call (getSigner w) GetSigner) (\<lambda>_.
          let td = \<lparr>td_domain = domain, td_types = tys, td_message = msg\<rparr>
          in call (\<lambda>tr. signTypedData w tr td) (SignTypedData td))
      else throw (Error ''No Ethereum provider found. Install MetaMask or provide a signer.''))"

definition reencrypt_domain :: "string \<Rightarrow> eip712_domain" where
  "reencrypt_domain contract =
     \<lparr>domain_name = ''Authorization token'', domain_version = ''1'',
      chainId = Some 11155111, verifyingContract = contract\<rparr>"

definition reencrypt_types :: "(string \<times> (string \<times> string) list) list" where
  "reencrypt_types =
     [(''Reencrypt'', [(''publicKey'', ''bytes''), (''handle'', ''uint256'')])]"

definition reencrypt_message :: "string \<Rightarrow> int \<Rightarrow> (string \<times> jsval) list" where
  "reencrypt_message pk h =
     [(''publicKey'', JString pk), (''handle'', JString (bigint_toString h))]"

text \<open>The typed data that \<^verbatim>\<open>generateReencryptSignature\<close> puts together for signing.\<close>

definition reencrypt_typed_data :: "FhevmInstance \<Rightarrow> int \<Rightarrow> string \<Rightarrow> typed_data" where
  "reencrypt_typed_data inst h contract =
     \<lparr>td_domain = reencrypt_domain contract, td_types = reencrypt_types,
      td_message = reencrypt_message (getPublicKey inst) h\<rparr>"

definition generateReencryptSignature ::
  "env \<Rightarrow> FhevmInstance \<Rightarrow> int \<Rightarrow> string \<Rightarrow> string \<Rightarrow> EIP712Signature io" where
  "generateReencryptSignature w inst h contract user =
     catch_rethrow ''Failed to generate reencryption signature: ''
       (let pk = getPublicKey inst in
        bind_io
          (signEIP712 w (reencrypt_domain contract) reencrypt_types
             (reencrypt_message pk h) user)
          (\<lambda>sg. ret \<lparr>signature = sg, publicKey = pk\<rparr>))"

definition reencrypt_request :: "int \<Rightarrow> string \<Rightarrow> string \<Rightarrow> string \<Rightarrow> string \<Rightarrow> http_request" where
  "reencrypt_request h pk sg contract gateway =
     \<lparr>url = gateway @ ''/reencrypt'', http_method = ''POST'',
      headers = [(''Content-Type'', ''application/json'')],
      body = JObject [(''handle'', JString (bigint_toString h)), (''publicKey'', JString pk),
                      (''signature'', JString sg), (''contractAddress'', JString contract)]\<rparr>"

definition requestDecryption ::
  "env \<Rightarrow> int \<Rightarrow> string \<Rightarrow> string \<Rightarrow> string \<Rightarrow> string \<Rightarrow> int io" where
  "requestDecryption w h pk sg contract gateway =
     (let req = reencrypt_request h pk sg contract gateway in
      bind_io (call (\<lambda>tr. fetch w tr req) (Fetch req)) (\<lambda>response.
        if \<not> ok response
        then throw (Error (''Gateway request failed: '' @ statusText response))
        else
          bind_io (settle (json response)) (\<lambda>data.
          bind_io (builtin w (get_property data ''value'')) (\<lambda>v.
          builtin w (BigInt v)))))"

text \<open>\<^verbatim>\<open>typeof handle === 'string' ? BigInt(handle) : handle\<close>\<close>

definition coerce_handle :: "handle \<Rightarrow> builtin_failure + int" where
  "coerce_handle h = (case h of HString s \<Rightarrow> BigInt (JString s) | HBigInt n \<Rightarrow> Inr n)"

definition decryptValue ::
  "env \<Rightarrow> FhevmInstance \<Rightarrow> handle \<Rightarrow> DecryptOptions \<Rightarrow> DecryptResult io" where
  "decryptValue w inst h options =
     catch_rethrow ''Decryption failed: ''
       (if \<not> hasKeypair inst then throw (Error ''Instance does not have a keypair'')
        else
          bind_io (builtin w (coerce_handle h))
            (\<lambda>handleBigInt.
          bind_io
            (generateReencryptSignature w inst handleBigInt
               (contractAddress options) (userAddress options))
            (\<lambda>auth.
          bind_io
            (requestDecryption w handleBigInt (publicKey auth) (signature auth)
               (contractAddress options)
               (or_default (gatewayUrl options) ''https://gateway.sepolia.zama.ai''))
            (\<lambda>decryptedValue.
          ret \<lparr>res_value = JBigInt decryptedValue, res_raw = JBigInt decryptedValue\<rparr>))))"

text \<open>The loop of \<^verbatim>\<open>decryptBatch\<close>, with the array \<^verbatim>\<open>results\<close> it pushes to.\<close>

fun decryptBatch_loop ::
  "env \<Rightarrow> FhevmInstance \<Rightarrow> DecryptOptions \<Rightarrow> handle list \<Rightarrow> DecryptResult list \<Rightarrow>
   DecryptResult list io" where
  "decryptBatch_loop w inst options [] results tr = (Inr results, tr)"
| "decryptBatch_loop w inst options (h # hs) results tr =
     (case decryptValue w inst h options tr of
        (Inl e, tr') \<Rightarrow> (Inl e, tr')
      | (Inr decrypted, tr') \<Rightarrow>
          decryptBatch_loop w inst options hs (results @ [decrypted]) tr')"

definition decryptBatch ::
  "env \<Rightarrow> FhevmInstance \<Rightarrow> handle list \<Rightarrow> DecryptOptions \<Rightarrow> DecryptResult list io" where
  "decryptBatch w inst handles options = decryptBatch_loop w inst options handles []"

text \<open>
  \<^verbatim>\<open>createReencryptionPermit\<close> is given its signer: \<open>provider_network\<close> is \<open>None\<close> when
  \<^verbatim>\<open>signer.provider\<close> is null, and otherwise what \<^verbatim>\<open>getNetwork()\<close> settles to, the chain
  id of the network the signer is connected to.
\<close>

record Signer =
  provider_network :: "(js_error + int) option"
  signer_signTypedData :: "typed_data \<Rightarrow> js_error + string"

definition permit_types :: "(string \<times> (string \<times> string) list) list" where
  "permit_types = [(''Permit'', [(''publicKey'', ''bytes''), (''owner'', ''address'')])]"

definition permit_typed_data :: "FhevmInstance \<Rightarrow> string \<Rightarrow> string \<Rightarrow> int option \<Rightarrow> typed_data" where
  "permit_typed_data inst contract user chain =
     \<lparr>td_domain = \<lparr>domain_name = ''Authorization token'', domain_version = ''1'',
                   chainId = chain, verifyingContract = contract\<rparr>,
      td_types = permit_types,
      td_message = [(''publicKey'', JString (getPublicKey inst)), (''owner'', JString user)]\<rparr>"

definition createReencryptionPermit ::
  "FhevmInstance \<Rightarrow> string \<Rightarrow> string \<Rightarrow> Signer \<Rightarrow> js_error + string" where
  "createReencryptionPermit inst contract user signer =
     (case provider_network signer of
        None \<Rightarrow> signer_signTypedData signer (permit_typed_data inst contract user None)
      | Some (Inl e) \<Rightarrow> Inl e
      | Some (Inr chain) \<Rightarrow>
          signer_signTypedData signer (permit_typed_data inst contract user (Some chain)))"

definition verifyDecryptSignature :: "env \<Rightarrow> string \<Rightarrow> string \<Rightarrow> string \<Rightarrow> bool" where
  "verifyDecryptSignature w sg pk expectedAddress =
     (case verifyMessage w pk sg of
        Inl e \<Rightarrow> False
      | Inr recoveredAddress \<Rightarrow> toLowerCase recoveredAddress = toLowerCase expectedAddress)"

section \<open>Instance management (core/instance.ts)\<close>

record network_defaults =
  def_gatewayUrl :: "string option"
  def_kmsContractAddress :: "string option"
  def_aclContractAddress :: "string option"

definition sepolia :: network_defaults where
  "sepolia =
     \<lparr>def_gatewayUrl = Some ''https://gateway.sepolia.zama.ai'',
      def_kmsContractAddress = Some ''0x9D6891A6240D6130c54ae243d8005063D05fE14b'',
      def_aclContractAddress = Some ''0xFee8407e2f5e3Ee68ad77cAE98c434e637f516e5''\<rparr>"

definition localhost :: network_defaults where
  "localhost =
     \<lparr>def_gatewayUrl = Some ''http://localhost:8545'',
      def_kmsContractAddress = Some ''0x0000000000000000000000000000000000000000'',
      def_aclContractAddress = Some ''0x0000000000000000000000000000000000000000''\<rparr>"

text \<open>
  The table \<^verbatim>\<open>defaults\<close> is an object literal, so \<^verbatim>\<open>defaults[network]\<close> also finds
  the properties every object inherits from \<^verbatim>\<open>Object.prototype\<close>. Those are functions
  (or the prototype itself), hence truthy, and none of them has a \<^verbatim>\<open>gatewayUrl\<close>,
  \<^verbatim>\<open>kmsContractAddress\<close> or \<^verbatim>\<open>aclContractAddress\<close>.
\<close>

definition object_prototype_properties :: "string list" where
  "object_prototype_properties =
     [''constructor'', ''hasOwnProperty'', ''isPrototypeOf'', ''propertyIsEnumerable'',
      ''toLocaleString'', ''toString'', ''valueOf'', ''__proto__'', ''__defineGetter__'',
      ''__defineSetter__'', ''__lookupGetter__'', ''__lookupSetter__'']"

definition getNetworkDefaults :: "string \<Rightarrow> network_defaults" where
  "getNetworkDefaults net =
     (if net = ''sepolia'' then sepolia
      else if net = ''localhost'' then localhost
      else if net \<in> set object_prototype_properties
        then \<lparr>def_gatewayUrl = None, def_kmsContractAddress = None,
              def_aclContractAddress = None\<rparr>
      else sepolia)"

definition merged_config :: "FhevmConfig \<Rightarrow> instance_args" where
  "merged_config config =
     (let networkDefaults = getNetworkDefaults (or_default (network config) ''sepolia'') in
      \<lparr>arg_kmsContractAddress =
         or_else (cfg_kmsContractAddress config) (def_kmsContractAddress networkDefaults),
       arg_aclContractAddress =
         or_else (cfg_aclContractAddress config) (def_aclContractAddress networkDefaults),
       arg_gatewayUrl = or_else (cfg_gatewayUrl config) (def_gatewayUrl networkDefaults),
       arg_publicKey = cfg_publicKey config\<rparr>)"

definition createFhevmInstance :: "env \<Rightarrow> FhevmConfig \<Rightarrow> FhevmInstance io" where
  "createFhevmInstance w config =
     catch_rethrow ''Failed to create FHEVM instance: ''
       (bind_io (call (initFhevm w) InitFhevm) (\<lambda>_.
          let args = merged_config config
          in call (\<lambda>tr. createInstance w tr args) (CreateInstance args)))"

definition isInstanceReady :: "FhevmInstance option \<Rightarrow> bool" where
  "isInstanceReady i = (case i of None \<Rightarrow> False | Some inst \<Rightarrow> hasKeypair inst)"

section \<open>The session state (react/useFhevm.ts)\<close>

record fhevm_state =
  fhevm_instance :: "FhevmInstance option"
  ready :: bool
  init_error :: "js_error option"
  loading :: bool

text \<open>The four \<^verbatim>\<open>useState\<close> cells as the hook creates them.\<close>

definition useFhevm_initial :: fhevm_state where
  "useFhevm_initial =
     \<lparr>fhevm_instance = None, ready = False, init_error = None, loading = True\<rparr>"

text \<open>
  \<^verbatim>\<open>initialize\<close> writes the state twice: before it awaits \<^verbatim>\<open>createFhevmInstance\<close>,
  and when that call has settled. The result holds the state while the call is in
  flight, the state after the attempt, and the events.
\<close>

definition initialize ::
  "env \<Rightarrow> FhevmConfig \<Rightarrow> fhevm_state \<Rightarrow> event list \<Rightarrow>
   fhevm_state \<times> fhevm_state \<times> event list" where
  "initialize w config st tr =
     (let pending = st\<lparr>loading := True, init_error := None\<rparr> in
      case createFhevmInstance w config tr of
        (Inr newInstance, tr') \<Rightarrow>
          (pending,
           pending\<lparr>fhevm_instance := Some newInstance,
                   ready := isInstanceReady (Some newInstance),
                   loading := False\<rparr>,
           tr')
      | (Inl err, tr') \<Rightarrow>
          (pending,
           pending\<lparr>init_error := Some err, ready := False, fhevm_instance := None,
                   loading := False\<rparr>,
           tr'))"

section \<open>The gated helpers (react/useDecrypt.ts, react/useEncrypt.ts)\<close>

definition not_ready :: js_error where
  "not_ready = Error ''FHEVM instance not ready. Wait for initialization.''"

record decrypt_state =
  decrypting :: bool
  decrypt_error :: "js_error option"
  lastDecrypted :: "DecryptResult option"

text \<open>
  The callback \<^verbatim>\<open>decrypt\<close> of \<^verbatim>\<open>useDecrypt\<close>, with the session state \<open>fh\<close> it closed
  over; it returns the outcome, the hook's own state and the events.
\<close>

definition useDecrypt_decrypt ::
  "env \<Rightarrow> fhevm_state \<Rightarrow> handle \<Rightarrow> DecryptOptions \<Rightarrow> decrypt_state \<Rightarrow> event list \<Rightarrow>
   (js_error + DecryptResult) \<times> decrypt_state \<times> event list" where
  "useDecrypt_decrypt w fh h options st tr =
     (case fhevm_instance fh of
        None \<Rightarrow> (Inl not_ready, st, tr)
      | Some inst \<Rightarrow>
          if \<not> ready fh then (Inl not_ready, st, tr)
          else
            (let st1 = st\<lparr>decrypting := True, decrypt_error := None\<rparr> in
             case decryptValue w inst h options tr of
               (Inr decrypted, tr') \<Rightarrow>
                 (Inr decrypted,
                  st1\<lparr>lastDecrypted := Some decrypted, decrypting := False\<rparr>, tr')
             | (Inl err, tr') \<Rightarrow>
                 (Inl err, st1\<lparr>decrypt_error := Some err, decrypting := False\<rparr>, tr')))"

text \<open>
  The types of core/encrypt.ts, as docs/API.md declares them. \<^verbatim>\<open>encryptValue\<close> itself
  is a parameter of the helper below.
\<close>

datatype EncryptionType =
    E_bool | E_uint4 | E_uint8 | E_uint16 | E_uint32 | E_uint64 | E_uint128 | E_uint256
  | E_address | E_bytes | E_bytes256

record EncryptedValue =
  data :: "nat list"
  handles :: "string list"
  inputProof :: string

record encrypt_state =
  encrypting :: bool
  encrypt_error :: "js_error option"
  lastEncrypted :: "EncryptedValue option"

text \<open>
  The callback \<^verbatim>\<open>encrypt\<close> of \<^verbatim>\<open>useEncrypt\<close>; an absent \<^verbatim>\<open>type\<close> argument takes the
  default \<^verbatim>\<open>'uint64'\<close>.
\<close>

definition useEncrypt_encrypt ::
  "(FhevmInstance \<Rightarrow> jsval \<Rightarrow> EncryptionType \<Rightarrow> EncryptedValue io) \<Rightarrow>
   fhevm_state \<Rightarrow> jsval \<Rightarrow> EncryptionType option \<Rightarrow> encrypt_state \<Rightarrow> event list \<Rightarrow>
   (js_error + EncryptedValue) \<times> encrypt_state \<times> event list" where
  "useEncrypt_encrypt encryptValue fh v ty st tr =
     (case fhevm_instance fh of
        None \<Rightarrow> (Inl not_ready, st, tr)
      | Some inst \<Rightarrow>
          if \<not> ready fh then (Inl not_ready, st, tr)
          else
            (let st1 = st\<lparr>encrypting := True, encrypt_error := None\<rparr> in
             case encryptValue inst v (case ty of None \<Rightarrow> E_uint64 | Some t \<Rightarrow> t) tr of
               (Inr encrypted, tr') \<Rightarrow>
                 (Inr encrypted,
                  st1\<lparr>lastEncrypted := Some encrypted, encrypting := False\<rparr>, tr')
             | (Inl err, tr') \<Rightarrow>
                 (Inl err, st1\<lparr>encrypt_error := Some err, encrypting := False\<rparr>, tr')))"

section \<open>The gateway resolution in the specification's words\<close>

text \<open>
  The specification resolves the gateway in three steps: the override of the call, else
  the gateway the instance was configured with, else the fixed default. This definition
  follows those words; \<^verbatim>\<open>decryptValue\<close> above follows the source.
\<close>

definition spec_gateway_resolution :: "FhevmInstance \<Rightarrow> DecryptOptions \<Rightarrow> string" where
  "spec_gateway_resolution inst options =
     or_default (gatewayUrl options)
       (or_default (arg_gatewayUrl (created_with inst)) ''https://gateway.sepolia.zama.ai'')"

section \<open>Concrete scenarios\<close>

text \<open>
  A world for the scenarios below: a wallet on chain \<open>chain\<close> that signs everything with
  the same signature, an engine that always boots, and a gateway that answers each
  request by \<open>gateway\<close>.
\<close>

definition scenario_instance :: "string option \<Rightarrow> bool \<Rightarrow> FhevmInstance" where
  "scenario_instance gateway keys =
     \<lparr>created_with =
        \<lparr>arg_kmsContractAddress = None, arg_aclContractAddress = None,
         arg_gatewayUrl = gateway, arg_publicKey = None\<rparr>,
      hasKeypair = keys, getPublicKey = ''0x04ab''\<rparr>"

definition scenario_world :: "int \<Rightarrow> (http_request \<Rightarrow> http_response) \<Rightarrow> env" where
  "scenario_world chain gateway =
     \<lparr>engine_message = (\<lambda>f. ''cannot convert''),
      initFhevm = (\<lambda>tr. Inr ()),
      createInstance =
        (\<lambda>tr args. Inr \<lparr>created_with = args, hasKeypair = True, getPublicKey = ''0x04ab''\<rparr>),
      ethereum = True,
      wallet_chainId = chain,
      getSigner = (\<lambda>tr. Inr ()),
      signTypedData = (\<lambda>tr td. Inr ''0x51''),
      fetch = (\<lambda>tr req. Inr (gateway req)),
      verifyMessage =
        (\<lambda>msg sg. if sg = ''0x51'' then Inr ''0xAbC1'' else Inl (Error ''invalid signature''))\<rparr>"

definition scenario_options :: "string option \<Rightarrow> DecryptOptions" where
  "scenario_options override =
     \<lparr>contractAddress = ''0xC0'', userAddress = ''0xAbC1'', gatewayUrl = override\<rparr>"

definition answer :: "nat \<Rightarrow> string \<Rightarrow> jsval \<Rightarrow> http_response" where
  "answer code text payload = \<lparr>status = code, statusText = text, json = Inr payload\<rparr>"

text \<open>A gateway that decrypts every handle to 42, except handle 2, which it refuses.\<close>

definition refuses_two :: "http_request \<Rightarrow> http_response" where
  "refuses_two req =
     (if get_property (body req) ''handle'' = Inr (JString ''2'')
      then answer 403 ''Forbidden'' JNull
      else answer 200 ''OK'' (JObject [(''value'', JString ''42'')]))"

text \<open>
  A world whose gateway answers the first request it sees and refuses every later one:
  its answer depends on the requests made before.
\<close>

definition is_fetch :: "event \<Rightarrow> bool" where
  "is_fetch ev = (case ev of Fetch req \<Rightarrow> True | _ \<Rightarrow> False)"

definition scenario_world_throttled :: env where
  "scenario_world_throttled =
     (scenario_world 11155111 refuses_two)
       \<lparr>fetch :=
          (\<lambda>tr req.
             Inr (if list_ex is_fetch tr then answer 429 ''Too Many Requests'' JNull
                  else answer 200 ''OK'' (JObject [(''value'', JString ''42'')])))\<rparr>"

text \<open>The same world with an engine that fails to boot.\<close>

definition scenario_world_without_engine :: env where
  "scenario_world_without_engine =
     (scenario_world 11155111 refuses_two)
       \<lparr>initFhevm := (\<lambda>tr. Inl (Error ''wasm not found''))\<rparr>"

definition empty_config :: FhevmConfig where
  "empty_config =
     \<lparr>network = None, cfg_gatewayUrl = None, cfg_publicKey = None,
      cfg_kmsContractAddress = None, cfg_aclContractAddress = None\<rparr>"

text \<open>A gateway whose answer holds more than the field \<^verbatim>\<open>value\<close>.\<close>

definition verbose_payload :: jsval where
  "verbose_payload = JObject [(''value'', JString ''42''), (''requestId'', JString ''r-7'')]"

text \<open>The calls that one decryption of handle \<open>n\<close> makes in this world, up to the gateway.\<close>

definition scenario_events :: "int \<Rightarrow> event list" where
  "scenario_events n =
     [GetSigner,
      SignTypedData (reencrypt_typed_data (scenario_instance None True) n ''0xC0''),
      Fetch (reencrypt_request n ''0x04ab'' ''0x51'' ''0xC0''
               ''https://gateway.sepolia.zama.ai'')]"

definition forty_two :: DecryptResult where
  "forty_two = \<lparr>res_value = JBigInt 42, res_raw = JBigInt 42\<rparr>"

text \<open>A gateway that gives the same answer to every request.\<close>

definition always_answers :: "http_response \<Rightarrow> http_request \<Rightarrow> http_response" where
  "always_answers r req = r"

definition idle_decrypt :: decrypt_state where
  "idle_decrypt = \<lparr>decrypting = False, decrypt_error = None, lastDecrypted = None\<rparr>"

definition idle_encrypt :: encrypt_state where
  "idle_encrypt = \<lparr>encrypting = False, encrypt_error = None, lastEncrypted = None\<rparr>"

text \<open>An engine stand-in for \<^verbatim>\<open>encryptValue\<close> that would record a call and succeed.\<close>

definition scenario_encryptValue ::
  "FhevmInstance \<Rightarrow> jsval \<Rightarrow> EncryptionType \<Rightarrow> EncryptedValue io" where
  "scenario_encryptValue inst v ty tr =
     (Inr \<lparr>data = [1], handles = [''0x01''], inputProof = ''0x02''\<rparr>, tr @ [InitFhevm])"

section \<open>Handles as base-10 strings\<close>

text \<open>
  \<^verbatim>\<open>toString()\<close> writes a BigInt in base 10, and \<^verbatim>\<open>BigInt\<close> reads that string back to
  the same integer: the handle in the signed message and in the request body denotes the
  handle that was passed in.
\<close>

lemma digit_value_digit:
  "n < 10 \<Longrightarrow> digit_value (''0123456789'' ! n) = Some n"
proof -
  assume "n < 10"
  then have "n \<in> {0, 1, 2, 3, 4, 5, 6, 7, 8, 9}" by auto
  then show ?thesis
    by (auto simp add: digit_value_def)
qed

lemma nat_digits_chars:
  "set (nat_digits n) \<subseteq> set ''0123456789''"
proof (induction n rule: nat_digits.induct)
  case (1 n)
  have d: "''0123456789'' ! k \<in> set ''0123456789''" if "k < 10" for k
    using that nth_mem [of k "''0123456789''"] by simp
  show ?case
  proof (cases "n < 10")
    case True
    then show ?thesis
      using d [of n] by (subst nat_digits.simps) simp
  next
    case False
    then show ?thesis
      using "1.IH" d [of "n mod 10"] by (subst nat_digits.simps) simp
  qed
qed

lemma nat_digits_not_Nil: "nat_digits n \<noteq> []"
  by (subst nat_digits.simps) simp

lemma parse_digits_snoc:
  "parse_digits b (cs @ [c]) acc =
     (case parse_digits b cs acc of
        None \<Rightarrow> None
      | Some a \<Rightarrow>
          (case digit_value c of
             None \<Rightarrow> None
           | Some d \<Rightarrow> if d < b then Some (a * b + d) else None))"
  by (induction cs arbitrary: acc) (simp_all split: option.splits)

lemma parse_digits_nat_digits: "parse_digits 10 (nat_digits n) 0 = Some n"
proof (induction n rule: nat_digits.induct)
  case (1 n)
  show ?case
  proof (cases "n < 10")
    case True
    then show ?thesis
      by (subst nat_digits.simps) (simp add: digit_value_digit)
  next
    case False
    then have "parse_digits 10 (nat_digits (n div 10)) 0 = Some (n div 10)"
      by (rule "1.IH")
    with False show ?thesis
      by (subst nat_digits.simps) (simp add: parse_digits_snoc digit_value_digit)
  qed
qed

lemma js_trim_unchanged:
  assumes "s \<noteq> []" and "\<not> is_whitespace (hd s)" and "\<not> is_whitespace (last s)"
  shows "js_trim s = s"
proof -
  have "dropWhile is_whitespace s = s"
    using assms(1,2) by (cases s) simp_all
  moreover have "dropWhile is_whitespace (rev s) = rev s"
    using assms(1,3) by (cases "rev s") (simp_all add: last_rev [symmetric] hd_rev)
  ultimately show ?thesis
    by (simp add: js_trim_def)
qed

lemma digit_char_props:
  "c \<in> set ''0123456789'' \<Longrightarrow>
   \<not> is_whitespace c \<and> c \<noteq> CHR ''-'' \<and> c \<noteq> CHR ''+'' \<and>
   c \<notin> {CHR ''x'', CHR ''X'', CHR ''o'', CHR ''O'', CHR ''b'', CHR ''B''}"
  by (auto simp add: is_whitespace_def)

lemma StringToBigInt_nat_digits: "StringToBigInt (nat_digits n) = Some (int n)"
proof -
  obtain c rest where s: "nat_digits n = c # rest"
    using nat_digits_not_Nil [of n] by (cases "nat_digits n") auto
  have chars: "\<And>x. x \<in> set (nat_digits n) \<Longrightarrow> x \<in> set ''0123456789''"
    using nat_digits_chars [of n] by blast
  have c: "c \<in> set ''0123456789''"
    using chars s by simp
  have l: "last (nat_digits n) \<in> set ''0123456789''"
    using chars [of "last (nat_digits n)"] nat_digits_not_Nil [of n] by simp
  have r: "rest \<noteq> [] \<Longrightarrow> hd rest \<in> set ''0123456789''"
    using chars [of "hd rest"] s by (cases rest) simp_all
  have trim: "js_trim (nat_digits n) = c # rest"
    using js_trim_unchanged [of "nat_digits n"] digit_char_props [OF c] digit_char_props [OF l] s
    by simp
  have p: "parse_literal 10 (c # rest) = Some n"
    using parse_digits_nat_digits [of n] s by (simp add: parse_literal_def)
  show ?thesis
  proof (cases "rest = []")
    case True
    with p trim digit_char_props [OF c] show ?thesis
      by (simp add: StringToBigInt_def)
  next
    case False
    with p trim digit_char_props [OF c] digit_char_props [OF r [OF False]] show ?thesis
      by (simp add: StringToBigInt_def)
  qed
qed

lemma StringToBigInt_bigint_toString: "StringToBigInt (bigint_toString i) = Some i"
proof (cases "i < 0")
  case False
  then show ?thesis
    by (simp add: bigint_toString_def StringToBigInt_nat_digits)
next
  case True
  let ?m = "nat (- i)"
  have chars: "\<And>x. x \<in> set (nat_digits ?m) \<Longrightarrow> x \<in> set ''0123456789''"
    using nat_digits_chars [of ?m] by blast
  have l: "last (nat_digits ?m) \<in> set ''0123456789''"
    using chars [of "last (nat_digits ?m)"] nat_digits_not_Nil [of ?m] by simp
  have "\<not> is_whitespace CHR ''-''"
    by (simp add: is_whitespace_def)
  then have trim: "js_trim (CHR ''-'' # nat_digits ?m) = CHR ''-'' # nat_digits ?m"
    using js_trim_unchanged [of "CHR ''-'' # nat_digits ?m"] digit_char_props [OF l]
      nat_digits_not_Nil [of ?m]
    by simp
  have "parse_literal 10 (nat_digits ?m) = Some ?m"
    using parse_digits_nat_digits [of ?m] nat_digits_not_Nil [of ?m]
    by (simp add: parse_literal_def)
  with trim True show ?thesis
    by (simp add: bigint_toString_def StringToBigInt_def)
qed

lemma coerce_handle_decimal: "coerce_handle (HString (bigint_toString i)) = Inr i"
  by (simp add: coerce_handle_def BigInt_def StringToBigInt_bigint_toString)

section \<open>How a decryption runs\<close>

text \<open>
  The runs of the three steps, case by case: which calls leave the program, in which
  order, and what each outcome leads to.
\<close>

lemma signEIP712_run:
  "signEIP712 w d tys msg user tr =
     (if \<not> ethereum w
      then (Inl (Error ''No Ethereum provider found. Install MetaMask or provide a signer.''), tr)
      else
        (case getSigner w tr of
           Inl e \<Rightarrow> (Inl e, tr @ [GetSigner])
         | Inr u \<Rightarrow>
             (signTypedData w (tr @ [GetSigner]) \<lparr>td_domain = d, td_types = tys, td_message = msg\<rparr>,
              tr @ [GetSigner, SignTypedData \<lparr>td_domain = d, td_types = tys, td_message = msg\<rparr>])))"
  by (simp add: signEIP712_def bind_io_def call_def throw_def Let_def split: sum.splits)

lemma generateReencryptSignature_run:
  "generateReencryptSignature w inst h contract user tr =
     (if \<not> ethereum w
      then (Inl (Error ''Failed to generate reencryption signature: No Ethereum provider found. Install MetaMask or provide a signer.''), tr)
      else
        (case getSigner w tr of
           Inl e \<Rightarrow>
             (Inl (Error (''Failed to generate reencryption signature: '' @ message e)),
              tr @ [GetSigner])
         | Inr u \<Rightarrow>
             (case signTypedData w (tr @ [GetSigner]) (reencrypt_typed_data inst h contract) of
                Inl e \<Rightarrow>
                  (Inl (Error (''Failed to generate reencryption signature: '' @ message e)),
                   tr @ [GetSigner, SignTypedData (reencrypt_typed_data inst h contract)])
              | Inr sg \<Rightarrow>
                  (Inr \<lparr>signature = sg, publicKey = getPublicKey inst\<rparr>,
                   tr @ [GetSigner, SignTypedData (reencrypt_typed_data inst h contract)]))))"
  by (simp add: generateReencryptSignature_def signEIP712_run catch_rethrow_def bind_io_def
      ret_def reencrypt_typed_data_def Let_def split: sum.splits)

lemma requestDecryption_run:
  "requestDecryption w h pk sg contract gateway tr =
     (case fetch w tr (reencrypt_request h pk sg contract gateway) of
        Inl e \<Rightarrow> (Inl e, tr @ [Fetch (reencrypt_request h pk sg contract gateway)])
      | Inr response \<Rightarrow>
          (if \<not> ok response
           then Inl (Error (''Gateway request failed: '' @ statusText response))
           else
             (case json response of
                Inl e \<Rightarrow> Inl e
              | Inr d \<Rightarrow>
                  (case get_property d ''value'' of
                     Inl f \<Rightarrow> Inl (Error (engine_message w f))
                   | Inr v \<Rightarrow>
                       (case BigInt v of
                          Inl f \<Rightarrow> Inl (Error (engine_message w f))
                        | Inr n \<Rightarrow> Inr n))),
           tr @ [Fetch (reencrypt_request h pk sg contract gateway)]))"
  by (simp add: requestDecryption_def bind_io_def call_def throw_def settle_def builtin_def
      Let_def split: sum.splits)


lemma decryptValue_no_keypair:
  "\<not> hasKeypair inst \<Longrightarrow>
   decryptValue w inst h options tr =
     (Inl (Error ''Decryption failed: Instance does not have a keypair''), tr)"
  by (simp add: decryptValue_def catch_rethrow_def throw_def)

lemma decryptValue_bad_handle:
  "hasKeypair inst \<Longrightarrow> coerce_handle h = Inl f \<Longrightarrow>
   decryptValue w inst h options tr =
     (Inl (Error (''Decryption failed: '' @ engine_message w f)), tr)"
  by (simp add: decryptValue_def catch_rethrow_def bind_io_def builtin_def)

lemma decryptValue_signature_failed:
  "hasKeypair inst \<Longrightarrow> coerce_handle h = Inr hb \<Longrightarrow>
   generateReencryptSignature w inst hb (contractAddress options) (userAddress options) tr
     = (Inl e, tr1) \<Longrightarrow>
   decryptValue w inst h options tr = (Inl (Error (''Decryption failed: '' @ message e)), tr1)"
  by (simp add: decryptValue_def catch_rethrow_def bind_io_def builtin_def)

lemma decryptValue_signed:
  "hasKeypair inst \<Longrightarrow> coerce_handle h = Inr hb \<Longrightarrow>
   generateReencryptSignature w inst hb (contractAddress options) (userAddress options) tr
     = (Inr auth, tr1) \<Longrightarrow>
   decryptValue w inst h options tr =
     (case requestDecryption w hb (publicKey auth) (signature auth) (contractAddress options)
             (or_default (gatewayUrl options) ''https://gateway.sepolia.zama.ai'') tr1 of
        (Inl e, tr2) \<Rightarrow> (Inl (Error (''Decryption failed: '' @ message e)), tr2)
      | (Inr n, tr2) \<Rightarrow> (Inr \<lparr>res_value = JBigInt n, res_raw = JBigInt n\<rparr>, tr2))"
  by (simp add: decryptValue_def catch_rethrow_def bind_io_def builtin_def ret_def
      split: prod.splits sum.splits)

lemma generateReencryptSignature_Inr:
  "generateReencryptSignature w inst hb contract user tr = (Inr auth, tr1) \<Longrightarrow>
   publicKey auth = getPublicKey inst \<and>
   signTypedData w (tr @ [GetSigner]) (reencrypt_typed_data inst hb contract) = Inr (signature auth) \<and>
   tr1 = tr @ [GetSigner, SignTypedData (reencrypt_typed_data inst hb contract)]"
  by (auto simp add: generateReencryptSignature_run split: if_splits sum.splits)

lemma decryptValue_Inr:
  assumes "decryptValue w inst h options tr = (Inr r, tr')"
  shows "\<exists>hb auth tr1 resp.
           hasKeypair inst \<and> coerce_handle h = Inr hb \<and>
           generateReencryptSignature w inst hb (contractAddress options) (userAddress options) tr
             = (Inr auth, tr1) \<and>
           fetch w tr1 (reencrypt_request hb (publicKey auth) (signature auth)
                          (contractAddress options)
                          (or_default (gatewayUrl options) ''https://gateway.sepolia.zama.ai''))
             = Inr resp \<and> ok resp"
proof -
  have k: "hasKeypair inst"
    using assms decryptValue_no_keypair [of inst w h options tr] by auto
  obtain hb where hb: "coerce_handle h = Inr hb"
    using assms k decryptValue_bad_handle [of inst h _ w options tr]
    by (cases "coerce_handle h") auto
  obtain auth tr1 where sg:
    "generateReencryptSignature w inst hb (contractAddress options) (userAddress options) tr
       = (Inr auth, tr1)"
    using assms decryptValue_signature_failed [OF k hb, of w options tr]
    by (cases "generateReencryptSignature w inst hb (contractAddress options) (userAddress options) tr";
        cases "fst (generateReencryptSignature w inst hb (contractAddress options) (userAddress options) tr)")
       auto
  have "\<exists>resp. fetch w tr1 (reencrypt_request hb (publicKey auth) (signature auth)
                          (contractAddress options)
                          (or_default (gatewayUrl options) ''https://gateway.sepolia.zama.ai''))
             = Inr resp \<and> ok resp"
    using assms unfolding decryptValue_signed [OF k hb sg] requestDecryption_run
    by (auto split: sum.splits if_splits)
  with k hb sg show ?thesis by blast
qed

lemma decryptValue_gateway_refused:
  assumes "hasKeypair inst" and "coerce_handle h = Inr hb"
    and "generateReencryptSignature w inst hb (contractAddress options) (userAddress options) tr
           = (Inr auth, tr1)"
    and "fetch w tr1 (reencrypt_request hb (publicKey auth) (signature auth)
                          (contractAddress options)
                          (or_default (gatewayUrl options) ''https://gateway.sepolia.zama.ai''))
             = Inr resp"
    and "\<not> ok resp"
  shows "decryptValue w inst h options tr =
           (Inl (Error (''Decryption failed: Gateway request failed: '' @ statusText resp)),
            tr1 @ [Fetch (reencrypt_request hb (publicKey auth) (signature auth)
                          (contractAddress options)
                          (or_default (gatewayUrl options) ''https://gateway.sepolia.zama.ai''))])"
  using assms(4,5) unfolding decryptValue_signed [OF assms(1,2,3)] requestDecryption_run
  by simp


lemma decryptValue_run:
  "decryptValue w inst h options tr =
     (if \<not> hasKeypair inst
      then (Inl (Error ''Decryption failed: Instance does not have a keypair''), tr)
      else
        (case coerce_handle h of
           Inl f \<Rightarrow> (Inl (Error (''Decryption failed: '' @ engine_message w f)), tr)
         | Inr hb \<Rightarrow>
             (case generateReencryptSignature w inst hb (contractAddress options)
                     (userAddress options) tr of
                (Inl e, tr1) \<Rightarrow> (Inl (Error (''Decryption failed: '' @ message e)), tr1)
              | (Inr auth, tr1) \<Rightarrow>
                  (case requestDecryption w hb (publicKey auth) (signature auth)
                          (contractAddress options)
                          (or_default (gatewayUrl options) ''https://gateway.sepolia.zama.ai'')
                          tr1 of
                     (Inl e, tr2) \<Rightarrow> (Inl (Error (''Decryption failed: '' @ message e)), tr2)
                   | (Inr n, tr2) \<Rightarrow>
                       (Inr \<lparr>res_value = JBigInt n, res_raw = JBigInt n\<rparr>, tr2)))))"
  by (simp add: decryptValue_def catch_rethrow_def bind_io_def builtin_def ret_def throw_def
      split: sum.splits prod.splits)

lemma decryptValue_events:
  "\<exists>evs. snd (decryptValue w inst h options tr) = tr @ evs \<and>
     (\<forall>req. Fetch req \<in> set evs \<longrightarrow>
        url req =
          or_default (gatewayUrl options) ''https://gateway.sepolia.zama.ai'' @ ''/reencrypt'') \<and>
     (\<forall>td. SignTypedData td \<in> set evs \<longrightarrow>
        (\<exists>hb. coerce_handle h = Inr hb \<and>
              td = reencrypt_typed_data inst hb (contractAddress options)))"
  unfolding decryptValue_run generateReencryptSignature_run requestDecryption_run
  by (auto simp add: reencrypt_request_def split: sum.splits)

section \<open>How a batch runs\<close>

text \<open>
  The loop with its accumulator is the same as decrypting the first handle and then the
  rest; a batch over a concatenation runs the first part and then the second.
\<close>

lemma decryptBatch_loop_results:
  "decryptBatch_loop w inst options hs results tr =
     (case decryptBatch_loop w inst options hs [] tr of
        (Inl e, t) \<Rightarrow> (Inl e, t)
      | (Inr ds, t) \<Rightarrow> (Inr (results @ ds), t))"
proof (induction hs arbitrary: results tr)
  case Nil
  show ?case by simp
next
  case (Cons h hs)
  show ?case
  proof (cases "decryptValue w inst h options tr")
    case (Pair r t)
    show ?thesis
    proof (cases r)
      case (Inl e)
      with Pair show ?thesis by simp
    next
      case (Inr d)
      have "decryptBatch_loop w inst options (h # hs) results tr
              = decryptBatch_loop w inst options hs (results @ [d]) t"
        using Pair Inr by simp
      also have "\<dots> = (case decryptBatch_loop w inst options hs [] t of
                          (Inl e, t') \<Rightarrow> (Inl e, t')
                        | (Inr ds, t') \<Rightarrow> (Inr ((results @ [d]) @ ds), t'))"
        by (rule Cons.IH)
      finally have lhs: "decryptBatch_loop w inst options (h # hs) results tr
              = (case decryptBatch_loop w inst options hs [] t of
                          (Inl e, t') \<Rightarrow> (Inl e, t')
                        | (Inr ds, t') \<Rightarrow> (Inr ((results @ [d]) @ ds), t'))" .
      have "decryptBatch_loop w inst options (h # hs) [] tr
              = decryptBatch_loop w inst options hs [d] t"
        using Pair Inr by simp
      also have "\<dots> = (case decryptBatch_loop w inst options hs [] t of
                          (Inl e, t') \<Rightarrow> (Inl e, t')
                        | (Inr ds, t') \<Rightarrow> (Inr ([d] @ ds), t'))"
        by (rule Cons.IH)
      finally have rhs: "decryptBatch_loop w inst options (h # hs) [] tr
              = (case decryptBatch_loop w inst options hs [] t of
                          (Inl e, t') \<Rightarrow> (Inl e, t')
                        | (Inr ds, t') \<Rightarrow> (Inr ([d] @ ds), t'))" .
      show ?thesis
        unfolding lhs rhs by (simp split: prod.splits sum.splits)
    qed
  qed
qed

lemma decryptBatch_Nil:
  "decryptBatch w inst [] options tr = (Inr [], tr)"
  by (simp add: decryptBatch_def)

lemma decryptBatch_Cons:
  "decryptBatch w inst (h # hs) options tr =
     (case decryptValue w inst h options tr of
        (Inl e, t) \<Rightarrow> (Inl e, t)
      | (Inr d, t) \<Rightarrow>
          (case decryptBatch w inst hs options t of
             (Inl e, t') \<Rightarrow> (Inl e, t')
           | (Inr ds, t') \<Rightarrow> (Inr (d # ds), t')))"
proof -
  have "decryptBatch_loop w inst options hs [d] t =
          (case decryptBatch_loop w inst options hs [] t of
             (Inl e, t') \<Rightarrow> (Inl e, t')
           | (Inr ds, t') \<Rightarrow> (Inr (d # ds), t'))" for d t
    using decryptBatch_loop_results [of w inst options hs "[d]" t]
    by (simp split: prod.splits sum.splits)
  then show ?thesis
    by (simp add: decryptBatch_def split: prod.splits sum.splits)
qed

lemma decryptBatch_append:
  "decryptBatch w inst (xs @ ys) options tr =
     (case decryptBatch w inst xs options tr of
        (Inl e, t) \<Rightarrow> (Inl e, t)
      | (Inr ds, t) \<Rightarrow>
          (case decryptBatch w inst ys options t of
             (Inl e, t') \<Rightarrow> (Inl e, t')
           | (Inr es, t') \<Rightarrow> (Inr (ds @ es), t')))"
proof (induction xs arbitrary: tr)
  case Nil
  show ?case by (simp add: decryptBatch_Nil split: prod.splits sum.splits)
next
  case (Cons x xs)
  show ?case
    by (simp add: decryptBatch_Cons Cons.IH split: prod.splits sum.splits)
qed

lemma decryptBatch_length:
  "decryptBatch w inst hs options tr = (Inr ds, tr') \<Longrightarrow> length ds = length hs"
proof (induction hs arbitrary: tr ds)
  case Nil
  then show ?case by (simp add: decryptBatch_Nil)
next
  case (Cons h hs)
  then show ?case
    by (auto simp add: decryptBatch_Cons split: prod.splits sum.splits)
qed

lemma decryptBatch_element:
  assumes "decryptBatch w inst hs options tr = (Inr ds, tr')" and "i < length hs"
  shows "\<exists>t t'. decryptBatch w inst (take i hs) options tr = (Inr (take i ds), t) \<and>
                decryptValue w inst (hs ! i) options t = (Inr (ds ! i), t')"
proof -
  have split: "hs = take i hs @ (hs ! i # drop (Suc i) hs)"
    using assms(2) by (simp add: id_take_nth_drop)
  obtain r1 t where b1: "decryptBatch w inst (take i hs) options tr = (r1, t)"
    by (cases "decryptBatch w inst (take i hs) options tr")
  obtain r2 t' where v: "decryptValue w inst (hs ! i) options t = (r2, t')"
    by (cases "decryptValue w inst (hs ! i) options t")
  obtain r3 t'' where b3: "decryptBatch w inst (drop (Suc i) hs) options t' = (r3, t'')"
    by (cases "decryptBatch w inst (drop (Suc i) hs) options t'")
  have whole: "decryptBatch w inst (take i hs @ (hs ! i # drop (Suc i) hs)) options tr
                 = (Inr ds, tr')"
    using assms(1) split by simp
  from whole obtain ds1 d ds3 where
    r: "r1 = Inr ds1" "r2 = Inr d" "r3 = Inr ds3" "ds = ds1 @ d # ds3"
    unfolding decryptBatch_append decryptBatch_Cons b1
    using v b3 by (auto split: sum.splits prod.splits)
  have len: "length ds1 = i"
    using decryptBatch_length [of w inst "take i hs" options tr ds1 t] b1 r(1) assms(2)
    by simp
  have "take i ds = ds1" "ds ! i = d"
    using len r(4) by (simp_all add: nth_append)
  with b1 v r show ?thesis by simp
qed

lemma decryptBatch_failure_at:
  assumes "k < length hs"
    and "decryptBatch w inst (take k hs) options tr = (Inr ds, t)"
    and "decryptValue w inst (hs ! k) options t = (Inl e, tr')"
  shows "decryptBatch w inst hs options tr = (Inl e, tr')"
proof -
  have "hs = take k hs @ (hs ! k # drop (Suc k) hs)"
    using assms(1) by (simp add: id_take_nth_drop)
  then have "decryptBatch w inst hs options tr
               = decryptBatch w inst (take k hs @ (hs ! k # drop (Suc k) hs)) options tr"
    by simp
  also have "\<dots> = (Inl e, tr')"
    unfolding decryptBatch_append decryptBatch_Cons using assms(2,3) by simp
  finally show ?thesis .
qed

lemma decryptBatch_failure_index:
  "decryptBatch w inst hs options tr = (Inl e, tr') \<Longrightarrow>
   \<exists>k ds t. k < length hs \<and> decryptBatch w inst (take k hs) options tr = (Inr ds, t) \<and>
            decryptValue w inst (hs ! k) options t = (Inl e, tr')"
proof (induction hs arbitrary: tr)
  case Nil
  then show ?case by (simp add: decryptBatch_Nil)
next
  case (Cons h hs)
  obtain r t where v: "decryptValue w inst h options tr = (r, t)"
    by (cases "decryptValue w inst h options tr")
  show ?case
  proof (cases r)
    case (Inl e0)
    with v Cons.prems have "decryptValue w inst h options tr = (Inl e, tr')"
      by (simp add: decryptBatch_Cons)
    then have "0 < length (h # hs) \<and>
               decryptBatch w inst (take 0 (h # hs)) options tr = (Inr [], tr) \<and>
               decryptValue w inst ((h # hs) ! 0) options tr = (Inl e, tr')"
      by (simp add: decryptBatch_Nil)
    then show ?thesis by blast
  next
    case (Inr d)
    with v Cons.prems have "decryptBatch w inst hs options t = (Inl e, tr')"
      by (auto simp add: decryptBatch_Cons split: prod.splits sum.splits)
    from Cons.IH [OF this] obtain k ds t1 where
      k: "k < length hs" "decryptBatch w inst (take k hs) options t = (Inr ds, t1)"
         "decryptValue w inst (hs ! k) options t1 = (Inl e, tr')"
      by blast
    have "Suc k < length (h # hs) \<and>
          decryptBatch w inst (take (Suc k) (h # hs)) options tr = (Inr (d # ds), t1) \<and>
          decryptValue w inst ((h # hs) ! Suc k) options t1 = (Inl e, tr')"
      using k v Inr by (simp add: decryptBatch_Cons)
    then show ?thesis by blast
  qed
qed

text \<open>
  A batch and the chain of its single decryptions: the list \<open>ts\<close> holds the record of
  outside calls before the first handle and after each handle, so that every decryption
  starts from the record that the one before it left.
\<close>

lemma decryptBatch_Inr_iff:
  "decryptBatch w inst hs options tr = (Inr ds, tr') \<longleftrightarrow>
     (\<exists>ts. length ts = Suc (length hs) \<and> length ds = length hs \<and>
        ts ! 0 = tr \<and> ts ! length hs = tr' \<and>
        (\<forall>i<length hs.
           decryptValue w inst (hs ! i) options (ts ! i) = (Inr (ds ! i), ts ! Suc i)))"
proof (induction hs arbitrary: tr ds)
  case Nil
  have "(\<exists>ts::event list list. length ts = Suc 0 \<and> ts ! 0 = tr \<and> ts ! 0 = tr') \<longleftrightarrow> tr' = tr"
  proof
    assume "\<exists>ts::event list list. length ts = Suc 0 \<and> ts ! 0 = tr \<and> ts ! 0 = tr'"
    then show "tr' = tr" by auto
  next
    assume "tr' = tr"
    then have "length [tr] = Suc 0 \<and> [tr] ! 0 = tr \<and> [tr] ! 0 = tr'" by simp
    then show "\<exists>ts::event list list. length ts = Suc 0 \<and> ts ! 0 = tr \<and> ts ! 0 = tr'" by blast
  qed
  then show ?case
    by (auto simp add: decryptBatch_Nil)
next
  case (Cons h hs)
  show ?case
  proof
    assume run: "decryptBatch w inst (h # hs) options tr = (Inr ds, tr')"
    then obtain d t ds2 where
      v: "decryptValue w inst h options tr = (Inr d, t)" and
      b: "decryptBatch w inst hs options t = (Inr ds2, tr')" and
      ds: "ds = d # ds2"
      by (auto simp add: decryptBatch_Cons split: prod.splits sum.splits)
    from b obtain ts2 where ts2:
      "length ts2 = Suc (length hs)" "length ds2 = length hs" "ts2 ! 0 = t"
      "ts2 ! length hs = tr'"
      "\<forall>i<length hs.
         decryptValue w inst (hs ! i) options (ts2 ! i) = (Inr (ds2 ! i), ts2 ! Suc i)"
      using Cons.IH [of t ds2] by blast
    have "length (tr # ts2) = Suc (length (h # hs)) \<and> length ds = length (h # hs) \<and>
        (tr # ts2) ! 0 = tr \<and> (tr # ts2) ! length (h # hs) = tr' \<and>
        (\<forall>i<length (h # hs).
           decryptValue w inst ((h # hs) ! i) options ((tr # ts2) ! i)
             = (Inr (ds ! i), (tr # ts2) ! Suc i))"
      using ts2 v ds by (simp add: All_less_Suc2)
    then show "\<exists>ts. length ts = Suc (length (h # hs)) \<and> length ds = length (h # hs) \<and>
        ts ! 0 = tr \<and> ts ! length (h # hs) = tr' \<and>
        (\<forall>i<length (h # hs).
           decryptValue w inst ((h # hs) ! i) options (ts ! i) = (Inr (ds ! i), ts ! Suc i))"
      by blast
  next
    assume "\<exists>ts. length ts = Suc (length (h # hs)) \<and> length ds = length (h # hs) \<and>
        ts ! 0 = tr \<and> ts ! length (h # hs) = tr' \<and>
        (\<forall>i<length (h # hs).
           decryptValue w inst ((h # hs) ! i) options (ts ! i) = (Inr (ds ! i), ts ! Suc i))"
    then obtain ts where ts:
      "length ts = Suc (Suc (length hs))" "length ds = Suc (length hs)"
      "ts ! 0 = tr" "ts ! Suc (length hs) = tr'"
      "\<forall>i<Suc (length hs).
           decryptValue w inst ((h # hs) ! i) options (ts ! i) = (Inr (ds ! i), ts ! Suc i)"
      by auto
    from ts(1,3) obtain ts2 where t2: "ts = tr # ts2" "length ts2 = Suc (length hs)"
      by (cases ts) auto
    from ts(2) obtain d ds2 where d2: "ds = d # ds2" "length ds2 = length hs"
      by (cases ds) auto
    from ts(5) have first: "decryptValue w inst h options tr = (Inr d, ts2 ! 0)"
      and rest: "\<forall>i<length hs.
         decryptValue w inst (hs ! i) options (ts2 ! i) = (Inr (ds2 ! i), ts2 ! Suc i)"
      unfolding t2 d2 by (simp_all add: All_less_Suc2)
    have "decryptBatch w inst hs options (ts2 ! 0) = (Inr ds2, tr')"
      using Cons.IH [of "ts2 ! 0" ds2] t2 d2 rest ts(4) by auto
    with first d2 show "decryptBatch w inst (h # hs) options tr = (Inr ds, tr')"
      by (simp add: decryptBatch_Cons)
  qed
qed

lemma decryptBatch_Inl_iff:
  "decryptBatch w inst hs options tr = (Inl e, tr') \<longleftrightarrow>
     (\<exists>k ts ds. k < length hs \<and> length ts = Suc k \<and> length ds = k \<and> ts ! 0 = tr \<and>
        (\<forall>i<k. decryptValue w inst (hs ! i) options (ts ! i) = (Inr (ds ! i), ts ! Suc i)) \<and>
        decryptValue w inst (hs ! k) options (ts ! k) = (Inl e, tr'))"
proof (induction hs arbitrary: tr)
  case Nil
  show ?case by (simp add: decryptBatch_Nil)
next
  case (Cons h hs)
  show ?case
  proof
    assume run: "decryptBatch w inst (h # hs) options tr = (Inl e, tr')"
    obtain r t where v: "decryptValue w inst h options tr = (r, t)"
      by (cases "decryptValue w inst h options tr")
    show "\<exists>k ts ds. k < length (h # hs) \<and> length ts = Suc k \<and> length ds = k \<and> ts ! 0 = tr \<and>
        (\<forall>i<k. decryptValue w inst ((h # hs) ! i) options (ts ! i)
                  = (Inr (ds ! i), ts ! Suc i)) \<and>
        decryptValue w inst ((h # hs) ! k) options (ts ! k) = (Inl e, tr')"
    proof (cases r)
      case (Inl e0)
      with v run have "decryptValue w inst h options tr = (Inl e, tr')"
        by (simp add: decryptBatch_Cons)
      then have "0 < length (h # hs) \<and> length [tr] = Suc 0 \<and>
          length ([] :: DecryptResult list) = 0 \<and> [tr] ! 0 = tr \<and>
          (\<forall>i<0. decryptValue w inst ((h # hs) ! i) options ([tr] ! i)
                  = (Inr (([] :: DecryptResult list) ! i), [tr] ! Suc i)) \<and>
          decryptValue w inst ((h # hs) ! 0) options ([tr] ! 0) = (Inl e, tr')"
        by simp
      then show ?thesis by blast
    next
      case (Inr d)
      with v run have "decryptBatch w inst hs options t = (Inl e, tr')"
        by (auto simp add: decryptBatch_Cons split: prod.splits sum.splits)
      then obtain k ts2 ds2 where k:
        "k < length hs" "length ts2 = Suc k" "length ds2 = k" "ts2 ! 0 = t"
        "\<forall>i<k. decryptValue w inst (hs ! i) options (ts2 ! i) = (Inr (ds2 ! i), ts2 ! Suc i)"
        "decryptValue w inst (hs ! k) options (ts2 ! k) = (Inl e, tr')"
        using Cons.IH [of t] by blast
      have "Suc k < length (h # hs) \<and> length (tr # ts2) = Suc (Suc k) \<and>
          length (d # ds2) = Suc k \<and> (tr # ts2) ! 0 = tr \<and>
          (\<forall>i<Suc k. decryptValue w inst ((h # hs) ! i) options ((tr # ts2) ! i)
                  = (Inr ((d # ds2) ! i), (tr # ts2) ! Suc i)) \<and>
          decryptValue w inst ((h # hs) ! Suc k) options ((tr # ts2) ! Suc k) = (Inl e, tr')"
        using k v Inr by (simp add: All_less_Suc2)
      then show ?thesis by blast
    qed
  next
    assume "\<exists>k ts ds. k < length (h # hs) \<and> length ts = Suc k \<and> length ds = k \<and> ts ! 0 = tr \<and>
        (\<forall>i<k. decryptValue w inst ((h # hs) ! i) options (ts ! i)
                  = (Inr (ds ! i), ts ! Suc i)) \<and>
        decryptValue w inst ((h # hs) ! k) options (ts ! k) = (Inl e, tr')"
    then obtain k ts ds where k:
      "k < Suc (length hs)" "length ts = Suc k" "length ds = k" "ts ! 0 = tr"
      "\<forall>i<k. decryptValue w inst ((h # hs) ! i) options (ts ! i) = (Inr (ds ! i), ts ! Suc i)"
      "decryptValue w inst ((h # hs) ! k) options (ts ! k) = (Inl e, tr')"
      by auto
    show "decryptBatch w inst (h # hs) options tr = (Inl e, tr')"
    proof (cases k)
      case 0
      with k show ?thesis by (simp add: decryptBatch_Cons)
    next
      case (Suc j)
      from k(2,4) Suc obtain ts2 where t2: "ts = tr # ts2" "length ts2 = Suc j"
        by (cases ts) auto
      from k(3) Suc obtain d ds2 where d2: "ds = d # ds2" "length ds2 = j"
        by (cases ds) auto
      from k(5) have first: "decryptValue w inst h options tr = (Inr d, ts2 ! 0)"
        and rest: "\<forall>i<j.
           decryptValue w inst (hs ! i) options (ts2 ! i) = (Inr (ds2 ! i), ts2 ! Suc i)"
        unfolding t2 d2 Suc by (simp_all add: All_less_Suc2)
      from k(6) have last: "decryptValue w inst (hs ! j) options (ts2 ! j) = (Inl e, tr')"
        unfolding t2 Suc by simp
      have "j < length hs" using k(1) Suc by simp
      with t2 d2 rest last have "decryptBatch w inst hs options (ts2 ! 0) = (Inl e, tr')"
        using Cons.IH [of "ts2 ! 0"] by blast
      with first show ?thesis
        by (simp add: decryptBatch_Cons)
    qed
  qed
qed

section \<open>The decryption protocol: results and failures\<close>

text \<open>
  Claim C1, as amended. \<^verbatim>\<open>decryptValue\<close> returns a result only in a run in which the
  handle was coerced, the authorization signature was generated and the gateway answered
  with a status from 200 to 299. When the gateway answers with any other status, the call
  fails with the error whose message is \<^verbatim>\<open>Decryption failed: Gateway request failed: \<close>
  followed by the status text of the response, and nothing is sent after that request.
  The outcome is either an error or a complete result, never both and never a part.
  The numeric status is not in the error: the message holds the status text alone.
\<close>

theorem decryptValue_result_needs_signature_and_success:
  "(decryptValue w inst h options tr = (Inr r, tr') \<longrightarrow>
      (\<exists>hb auth tr1 resp.
         coerce_handle h = Inr hb \<and>
         generateReencryptSignature w inst hb (contractAddress options) (userAddress options) tr
           = (Inr auth, tr1) \<and>
         fetch w tr1
           (reencrypt_request hb (publicKey auth) (signature auth) (contractAddress options)
              (or_default (gatewayUrl options) ''https://gateway.sepolia.zama.ai''))
           = Inr resp \<and>
         ok resp)) \<and>
   (hasKeypair inst \<and> coerce_handle h = Inr hb \<and>
    generateReencryptSignature w inst hb (contractAddress options) (userAddress options) tr
      = (Inr auth, tr1) \<and>
    fetch w tr1
      (reencrypt_request hb (publicKey auth) (signature auth) (contractAddress options)
         (or_default (gatewayUrl options) ''https://gateway.sepolia.zama.ai''))
      = Inr resp \<and>
    \<not> ok resp \<longrightarrow>
      decryptValue w inst h options tr =
        (Inl (Error (''Decryption failed: Gateway request failed: '' @ statusText resp)),
         tr1 @ [Fetch (reencrypt_request hb (publicKey auth) (signature auth)
                         (contractAddress options)
                         (or_default (gatewayUrl options) ''https://gateway.sepolia.zama.ai''))]))"
proof (intro conjI impI)
  assume "decryptValue w inst h options tr = (Inr r, tr')"
  from decryptValue_Inr [OF this]
  show "\<exists>hb auth tr1 resp.
         coerce_handle h = Inr hb \<and>
         generateReencryptSignature w inst hb (contractAddress options) (userAddress options) tr
           = (Inr auth, tr1) \<and>
         fetch w tr1
           (reencrypt_request hb (publicKey auth) (signature auth) (contractAddress options)
              (or_default (gatewayUrl options) ''https://gateway.sepolia.zama.ai''))
           = Inr resp \<and>
         ok resp"
    by blast
next
  assume "hasKeypair inst \<and> coerce_handle h = Inr hb \<and>
    generateReencryptSignature w inst hb (contractAddress options) (userAddress options) tr
      = (Inr auth, tr1) \<and>
    fetch w tr1
      (reencrypt_request hb (publicKey auth) (signature auth) (contractAddress options)
         (or_default (gatewayUrl options) ''https://gateway.sepolia.zama.ai''))
      = Inr resp \<and>
    \<not> ok resp"
  then show "decryptValue w inst h options tr =
        (Inl (Error (''Decryption failed: Gateway request failed: '' @ statusText resp)),
         tr1 @ [Fetch (reencrypt_request hb (publicKey auth) (signature auth)
                         (contractAddress options)
                         (or_default (gatewayUrl options) ''https://gateway.sepolia.zama.ai''))])"
    using decryptValue_gateway_refused by blast
qed

theorem decryptValue_result_needs_signature_and_success_witness:
  "decryptValue (scenario_world 11155111 refuses_two) (scenario_instance None True)
     (HBigInt 7) (scenario_options None) []
     = (Inr \<lparr>res_value = JBigInt 42, res_raw = JBigInt 42\<rparr>,
        [GetSigner,
         SignTypedData (reencrypt_typed_data (scenario_instance None True) 7 ''0xC0''),
         Fetch (reencrypt_request 7 ''0x04ab'' ''0x51'' ''0xC0''
                  ''https://gateway.sepolia.zama.ai'')]) \<and>
   (\<exists>hb auth tr1 resp.
      coerce_handle (HBigInt 7) = Inr hb \<and>
      generateReencryptSignature (scenario_world 11155111 refuses_two)
        (scenario_instance None True) hb
        (contractAddress (scenario_options None)) (userAddress (scenario_options None)) []
        = (Inr auth, tr1) \<and>
      fetch (scenario_world 11155111 refuses_two) tr1
        (reencrypt_request hb (publicKey auth) (signature auth)
           (contractAddress (scenario_options None))
           (or_default (gatewayUrl (scenario_options None)) ''https://gateway.sepolia.zama.ai''))
        = Inr resp \<and>
      ok resp) \<and>
   hasKeypair (scenario_instance None True) \<and>
   coerce_handle (HString ''2'') = Inr 2 \<and>
   generateReencryptSignature (scenario_world 11155111 refuses_two)
     (scenario_instance None True) 2
     (contractAddress (scenario_options None)) (userAddress (scenario_options None)) []
     = (Inr \<lparr>signature = ''0x51'', publicKey = ''0x04ab''\<rparr>,
        [GetSigner,
         SignTypedData (reencrypt_typed_data (scenario_instance None True) 2 ''0xC0'')]) \<and>
   fetch (scenario_world 11155111 refuses_two)
     [GetSigner, SignTypedData (reencrypt_typed_data (scenario_instance None True) 2 ''0xC0'')]
     (reencrypt_request 2 ''0x04ab'' ''0x51'' (contractAddress (scenario_options None))
        (or_default (gatewayUrl (scenario_options None)) ''https://gateway.sepolia.zama.ai''))
     = Inr (answer 403 ''Forbidden'' JNull) \<and>
   \<not> ok (answer 403 ''Forbidden'' JNull) \<and>
   decryptValue (scenario_world 11155111 refuses_two) (scenario_instance None True)
     (HString ''2'') (scenario_options None) []
     = (Inl (Error ''Decryption failed: Gateway request failed: Forbidden''),
        [GetSigner,
         SignTypedData (reencrypt_typed_data (scenario_instance None True) 2 ''0xC0''),
         Fetch (reencrypt_request 2 ''0x04ab'' ''0x51'' ''0xC0''
                  ''https://gateway.sepolia.zama.ai'')])"
proof -
  let ?w = "scenario_world 11155111 refuses_two"
  let ?i = "scenario_instance None True"
  let ?o = "scenario_options None"
  have run: "decryptValue ?w ?i (HBigInt 7) ?o []
     = (Inr \<lparr>res_value = JBigInt 42, res_raw = JBigInt 42\<rparr>,
        [GetSigner, SignTypedData (reencrypt_typed_data ?i 7 ''0xC0''),
         Fetch (reencrypt_request 7 ''0x04ab'' ''0x51'' ''0xC0''
                  ''https://gateway.sepolia.zama.ai'')])"
    by code_simp
  have k: "hasKeypair ?i"
    by (simp add: scenario_instance_def)
  have c: "coerce_handle (HString ''2'') = Inr 2"
    by code_simp
  have g: "generateReencryptSignature ?w ?i 2 (contractAddress ?o) (userAddress ?o) []
     = (Inr \<lparr>signature = ''0x51'', publicKey = ''0x04ab''\<rparr>,
        [GetSigner, SignTypedData (reencrypt_typed_data ?i 2 ''0xC0'')])"
    by code_simp
  have f: "fetch ?w [GetSigner, SignTypedData (reencrypt_typed_data ?i 2 ''0xC0'')]
     (reencrypt_request 2 ''0x04ab'' ''0x51'' (contractAddress ?o)
        (or_default (gatewayUrl ?o) ''https://gateway.sepolia.zama.ai''))
     = Inr (answer 403 ''Forbidden'' JNull)"
    by code_simp
  have n: "\<not> ok (answer 403 ''Forbidden'' JNull)"
    by (simp add: ok_def answer_def)
  have s: "statusText (answer 403 ''Forbidden'' JNull) = ''Forbidden''"
    by (simp add: answer_def)
  have opts: "contractAddress ?o = ''0xC0''" "gatewayUrl ?o = None"
    by (simp_all add: scenario_options_def)
  note at_input = decryptValue_result_needs_signature_and_success
    [of ?w ?i _ ?o "[]" _ _ 2 "\<lparr>signature = ''0x51'', publicKey = ''0x04ab''\<rparr>"
        "[GetSigner, SignTypedData (reencrypt_typed_data ?i 2 ''0xC0'')]"
        "answer 403 ''Forbidden'' JNull"]
  have first: "\<exists>hb auth tr1 resp.
      coerce_handle (HBigInt 7) = Inr hb \<and>
      generateReencryptSignature ?w ?i hb (contractAddress ?o) (userAddress ?o) []
        = (Inr auth, tr1) \<and>
      fetch ?w tr1
        (reencrypt_request hb (publicKey auth) (signature auth) (contractAddress ?o)
           (or_default (gatewayUrl ?o) ''https://gateway.sepolia.zama.ai''))
        = Inr resp \<and> ok resp"
    using at_input [THEN conjunct1, rule_format, OF run] .
  have second: "decryptValue ?w ?i (HString ''2'') ?o []
     = (Inl (Error ''Decryption failed: Gateway request failed: Forbidden''),
        [GetSigner, SignTypedData (reencrypt_typed_data ?i 2 ''0xC0''),
         Fetch (reencrypt_request 2 ''0x04ab'' ''0x51'' ''0xC0''
                  ''https://gateway.sepolia.zama.ai'')])"
    using at_input [of "HString ''2''", THEN conjunct2, rule_format] k c g f n
    by (simp add: s opts or_default_def)
  from run first k c g f n second show ?thesis by blast
qed

text \<open>
  The claim as first stated has the error carry the HTTP status. Two gateways that refuse
  with status 500 and with status 404, both with an empty status text (as over HTTP/2),
  cause the very same failure.
\<close>

theorem decryptValue_error_without_status_code:
  "fst (decryptValue (scenario_world 11155111 (always_answers (answer 500 [] JNull)))
          (scenario_instance None True) (HBigInt 7) (scenario_options None) [])
     = Inl (Error ''Decryption failed: Gateway request failed: '') \<and>
   fst (decryptValue (scenario_world 11155111 (always_answers (answer 404 [] JNull)))
          (scenario_instance None True) (HBigInt 7) (scenario_options None) [])
     = Inl (Error ''Decryption failed: Gateway request failed: '')"
  by code_simp

section \<open>The gateway the request goes to\<close>

text \<open>
  Where the code sends a request, for every input: to the endpoint \<^verbatim>\<open>/reencrypt\<close> of
  the override \<^verbatim>\<open>gatewayUrl\<close> of the call's options if that is a non-empty string, and
  of \<^verbatim>\<open>https://gateway.sepolia.zama.ai\<close> otherwise.
\<close>

lemma decryptValue_gateway_url:
  "snd (decryptValue w inst h options tr) = tr @ evs \<Longrightarrow> Fetch req \<in> set evs \<Longrightarrow>
   url req =
     (if truthy (gatewayUrl options) then the (gatewayUrl options)
      else ''https://gateway.sepolia.zama.ai'') @ ''/reencrypt''"
proof -
  assume run: "snd (decryptValue w inst h options tr) = tr @ evs" and req: "Fetch req \<in> set evs"
  obtain evs' where e: "snd (decryptValue w inst h options tr) = tr @ evs'"
    and u: "\<forall>req. Fetch req \<in> set evs' \<longrightarrow>
        url req =
          or_default (gatewayUrl options) ''https://gateway.sepolia.zama.ai'' @ ''/reencrypt''"
    using decryptValue_events [of w inst h options tr] by blast
  from run e have "evs' = evs" by simp
  with u req have "url req =
      or_default (gatewayUrl options) ''https://gateway.sepolia.zama.ai'' @ ''/reencrypt''"
    by blast
  then show ?thesis
    by (simp add: or_default_def truthy_def split: option.splits)
qed

lemma decryptValue_gateway_url_at_override:
  "snd (decryptValue (scenario_world 11155111 refuses_two) (scenario_instance None True)
          (HBigInt 7) (scenario_options (Some ''http://localhost:9000'')) [])
     = [] @ [GetSigner,
             SignTypedData (reencrypt_typed_data (scenario_instance None True) 7 ''0xC0''),
             Fetch (reencrypt_request 7 ''0x04ab'' ''0x51'' ''0xC0'' ''http://localhost:9000'')] \<and>
   Fetch (reencrypt_request 7 ''0x04ab'' ''0x51'' ''0xC0'' ''http://localhost:9000'')
     \<in> set [GetSigner,
             SignTypedData (reencrypt_typed_data (scenario_instance None True) 7 ''0xC0''),
             Fetch (reencrypt_request 7 ''0x04ab'' ''0x51'' ''0xC0'' ''http://localhost:9000'')] \<and>
   url (reencrypt_request 7 ''0x04ab'' ''0x51'' ''0xC0'' ''http://localhost:9000'')
     = ''http://localhost:9000/reencrypt''"
proof -
  let ?evs = "[GetSigner,
             SignTypedData (reencrypt_typed_data (scenario_instance None True) 7 ''0xC0''),
             Fetch (reencrypt_request 7 ''0x04ab'' ''0x51'' ''0xC0'' ''http://localhost:9000'')]"
  have run: "snd (decryptValue (scenario_world 11155111 refuses_two) (scenario_instance None True)
          (HBigInt 7) (scenario_options (Some ''http://localhost:9000'')) []) = [] @ ?evs"
    by code_simp
  have mem: "Fetch (reencrypt_request 7 ''0x04ab'' ''0x51'' ''0xC0'' ''http://localhost:9000'')
     \<in> set ?evs"
    by simp
  have "url (reencrypt_request 7 ''0x04ab'' ''0x51'' ''0xC0'' ''http://localhost:9000'')
     = ''http://localhost:9000/reencrypt''"
    using decryptValue_gateway_url [OF run mem]
    by (simp add: scenario_options_def truthy_def)
  with run mem show ?thesis by blast
qed

text \<open>
  Claim C3, at an input where the code departs from it. The claim resolves the gateway
  in three steps: the override of the call, else the gateway the instance was configured
  with, else the fixed default. For an instance created for \<^verbatim>\<open>http://localhost:8545\<close>
  and a call without override, that order gives the local gateway; the code sends the
  request to the Sepolia gateway. The override and the fixed default are as claimed; the
  step between them is missing.
\<close>

theorem decryptValue_ignores_instance_gateway:
  "snd (decryptValue (scenario_world 31337 refuses_two)
          (scenario_instance (Some ''http://localhost:8545'') True)
          (HBigInt 7) (scenario_options None) [])
     = [GetSigner,
        SignTypedData
          (reencrypt_typed_data (scenario_instance (Some ''http://localhost:8545'') True) 7 ''0xC0''),
        Fetch (reencrypt_request 7 ''0x04ab'' ''0x51'' ''0xC0'' ''https://gateway.sepolia.zama.ai'')] \<and>
   url (reencrypt_request 7 ''0x04ab'' ''0x51'' ''0xC0'' ''https://gateway.sepolia.zama.ai'')
     = ''https://gateway.sepolia.zama.ai/reencrypt'' \<and>
   spec_gateway_resolution (scenario_instance (Some ''http://localhost:8545'') True)
     (scenario_options None) = ''http://localhost:8545''"
  by code_simp

section \<open>The authorization message\<close>

text \<open>
  What \<^verbatim>\<open>decryptValue\<close> has signed, whenever it has anything signed, is the typed data
  below, for every input. \<^verbatim>\<open>createReencryptionPermit\<close>, next to it in the same file,
  takes the chain id of its domain from the network of its signer.
\<close>

lemma reencrypt_typed_data_shape:
  "td_domain (reencrypt_typed_data inst h contract) =
     \<lparr>domain_name = ''Authorization token'', domain_version = ''1'',
      chainId = Some 11155111, verifyingContract = contract\<rparr> \<and>
   td_types (reencrypt_typed_data inst h contract) =
     [(''Reencrypt'', [(''publicKey'', ''bytes''), (''handle'', ''uint256'')])] \<and>
   td_message (reencrypt_typed_data inst h contract) =
     [(''publicKey'', JString (getPublicKey inst)), (''handle'', JString (bigint_toString h))]"
  by (simp add: reencrypt_typed_data_def reencrypt_domain_def reencrypt_types_def
      reencrypt_message_def)

lemma decryptValue_signs:
  assumes "snd (decryptValue w inst h options tr) = tr @ evs" and "SignTypedData td \<in> set evs"
  shows "\<exists>hb. coerce_handle h = Inr hb \<and>
              td = reencrypt_typed_data inst hb (contractAddress options)"
proof -
  obtain evs' where e: "snd (decryptValue w inst h options tr) = tr @ evs'"
    and u: "\<forall>td. SignTypedData td \<in> set evs' \<longrightarrow>
        (\<exists>hb. coerce_handle h = Inr hb \<and>
              td = reencrypt_typed_data inst hb (contractAddress options))"
    using decryptValue_events [of w inst h options tr] by blast
  from assms(1) e have "evs' = evs" by simp
  with u assms(2) show ?thesis by blast
qed

lemma createReencryptionPermit_chain:
  "provider_network signer = Some (Inr chain) \<Longrightarrow>
   createReencryptionPermit inst contract user signer =
     signer_signTypedData signer (permit_typed_data inst contract user (Some chain)) \<and>
   chainId (td_domain (permit_typed_data inst contract user (Some chain))) = Some chain"
  by (simp add: createReencryptionPermit_def permit_typed_data_def)

text \<open>
  Claim C2, at an input where the code departs from it. The wallet is connected to chain
  31337 and the instance was created for the local network; the typed data that
  \<^verbatim>\<open>decryptValue\<close> has signed still names chain 11155111 (Sepolia) in its domain. The
  other parts are as the claim says: name \<^verbatim>\<open>Authorization token\<close>, version \<^verbatim>\<open>1\<close>,
  the target contract as verifying contract, and the schema \<^verbatim>\<open>Reencrypt\<close> with
  \<^verbatim>\<open>publicKey: bytes\<close> and \<^verbatim>\<open>handle: uint256\<close>, the handle written in base 10.
\<close>

theorem decryptValue_signs_sepolia_chain_on_chain_31337:
  "wallet_chainId (scenario_world 31337 refuses_two) = 31337 \<and>
   snd (decryptValue (scenario_world 31337 refuses_two)
          (scenario_instance (Some ''http://localhost:8545'') True)
          (HBigInt 7) (scenario_options None) []) ! 1
     = SignTypedData
         \<lparr>td_domain =
            \<lparr>domain_name = ''Authorization token'', domain_version = ''1'',
             chainId = Some 11155111, verifyingContract = ''0xC0''\<rparr>,
          td_types = [(''Reencrypt'', [(''publicKey'', ''bytes''), (''handle'', ''uint256'')])],
          td_message = [(''publicKey'', JString ''0x04ab''), (''handle'', JString ''7'')]\<rparr>"
  by code_simp

section \<open>The two fields of a result\<close>

text \<open>
  Claim C7, at an input where the code departs from it. The gateway answers with a
  payload that holds \<^verbatim>\<open>value\<close> and a further field \<^verbatim>\<open>requestId\<close>. The field
  \<^verbatim>\<open>value\<close> of the result is the payload's \<^verbatim>\<open>value\<close> parsed as an integer, as
  claimed; the field \<^verbatim>\<open>raw\<close> is that same integer and not the payload, whose other
  field is lost.
\<close>

theorem decryptValue_raw_is_parsed_value:
  "fetch (scenario_world 11155111 (always_answers (answer 200 ''OK'' verbose_payload)))
     [GetSigner, SignTypedData (reencrypt_typed_data (scenario_instance None True) 7 ''0xC0'')]
     (reencrypt_request 7 ''0x04ab'' ''0x51'' ''0xC0'' ''https://gateway.sepolia.zama.ai'')
     = Inr \<lparr>status = 200, statusText = ''OK'',
            json = Inr (JObject [(''value'', JString ''42''), (''requestId'', JString ''r-7'')])\<rparr> \<and>
   fst (decryptValue (scenario_world 11155111 (always_answers (answer 200 ''OK'' verbose_payload)))
          (scenario_instance None True) (HBigInt 7) (scenario_options None) [])
     = Inr \<lparr>res_value = JBigInt 42, res_raw = JBigInt 42\<rparr>"
  by code_simp

section \<open>Batches\<close>

text \<open>
  Claim C4. \<^verbatim>\<open>decryptBatch\<close> applies \<^verbatim>\<open>decryptValue\<close> to the handles one after another,
  in input order, each call starting from the record of outside calls that the call
  before it left when it completed. The batch succeeds with results \<open>ds\<close> exactly when
  there is such a chain of records \<open>ts\<close> from the initial record to the final one along
  which handle \<open>i\<close> yields the result \<open>ds ! i\<close>, for every index. The batch fails with
  an error exactly when such a chain leads through successful handles up to some index
  \<open>k\<close> where \<^verbatim>\<open>decryptValue\<close> fails with that very error; the record then ends where
  that call ended, so no later handle is started, and the outcome is the error alone,
  with none of the results of the handles before \<open>k\<close>.
\<close>

theorem decryptBatch_sequential_fail_fast:
  "(decryptBatch w inst hs options tr = (Inr ds, tr') \<longleftrightarrow>
      (\<exists>ts. length ts = Suc (length hs) \<and> length ds = length hs \<and>
         ts ! 0 = tr \<and> ts ! length hs = tr' \<and>
         (\<forall>i<length hs.
            decryptValue w inst (hs ! i) options (ts ! i) = (Inr (ds ! i), ts ! Suc i)))) \<and>
   (decryptBatch w inst hs options tr = (Inl e, tr'') \<longleftrightarrow>
      (\<exists>k ts ds0. k < length hs \<and> length ts = Suc k \<and> length ds0 = k \<and> ts ! 0 = tr \<and>
         (\<forall>i<k. decryptValue w inst (hs ! i) options (ts ! i) = (Inr (ds0 ! i), ts ! Suc i)) \<and>
         decryptValue w inst (hs ! k) options (ts ! k) = (Inl e, tr'')))"
  using decryptBatch_Inr_iff [of w inst hs options tr ds tr']
    decryptBatch_Inl_iff [of w inst hs options tr e tr'']
  by blast

theorem decryptBatch_sequential_fail_fast_witness:
  "decryptValue (scenario_world 11155111 refuses_two) (scenario_instance None True)
     (HBigInt 1) (scenario_options None) []
     = (Inr forty_two, scenario_events 1) \<and>
   decryptValue (scenario_world 11155111 refuses_two) (scenario_instance None True)
     (HBigInt 3) (scenario_options None) (scenario_events 1)
     = (Inr forty_two, scenario_events 1 @ scenario_events 3) \<and>
   decryptBatch (scenario_world 11155111 refuses_two) (scenario_instance None True)
     [HBigInt 1, HBigInt 3] (scenario_options None) []
     = (Inr [forty_two, forty_two], scenario_events 1 @ scenario_events 3) \<and>
   decryptValue scenario_world_throttled (scenario_instance None True)
     (HBigInt 3) (scenario_options None) []
     = (Inr forty_two, scenario_events 3) \<and>
   decryptValue scenario_world_throttled (scenario_instance None True)
     (HBigInt 1) (scenario_options None) []
     = (Inr forty_two, scenario_events 1) \<and>
   decryptValue scenario_world_throttled (scenario_instance None True)
     (HBigInt 3) (scenario_options None) (scenario_events 1)
     = (Inl (Error ''Decryption failed: Gateway request failed: Too Many Requests''),
        scenario_events 1 @ scenario_events 3) \<and>
   decryptBatch scenario_world_throttled (scenario_instance None True)
     [HBigInt 1, HBigInt 3] (scenario_options None) []
     = (Inl (Error ''Decryption failed: Gateway request failed: Too Many Requests''),
        scenario_events 1 @ scenario_events 3)"
proof -
  let ?w = "scenario_world 11155111 refuses_two"
  let ?t = "scenario_world_throttled"
  let ?i = "scenario_instance None True"
  let ?o = "scenario_options None"
  let ?hs = "[HBigInt 1, HBigInt 3]"
  let ?e = "Error ''Decryption failed: Gateway request failed: Too Many Requests''"
  let ?end = "scenario_events 1 @ scenario_events 3"
  have a1: "decryptValue ?w ?i (HBigInt 1) ?o [] = (Inr forty_two, scenario_events 1)"
    by code_simp
  have a2: "decryptValue ?w ?i (HBigInt 3) ?o (scenario_events 1) = (Inr forty_two, ?end)"
    by code_simp
  have chain: "length [[], scenario_events 1, ?end] = Suc (length ?hs) \<and>
      length [forty_two, forty_two] = length ?hs \<and>
      [[], scenario_events 1, ?end] ! 0 = [] \<and>
      [[], scenario_events 1, ?end] ! length ?hs = ?end \<and>
      (\<forall>i<length ?hs.
         decryptValue ?w ?i (?hs ! i) ?o ([[], scenario_events 1, ?end] ! i)
           = (Inr ([forty_two, forty_two] ! i), [[], scenario_events 1, ?end] ! Suc i))"
    using a1 a2 by (simp add: All_less_Suc2)
  have a3: "decryptBatch ?w ?i ?hs ?o [] = (Inr [forty_two, forty_two], ?end)"
    using decryptBatch_sequential_fail_fast
      [of ?w ?i ?hs ?o "[]" "[forty_two, forty_two]" ?end, THEN conjunct1, THEN iffD2,
       OF exI, OF chain] .
  have b0: "decryptValue ?t ?i (HBigInt 3) ?o [] = (Inr forty_two, scenario_events 3)"
    by code_simp
  have b1: "decryptValue ?t ?i (HBigInt 1) ?o [] = (Inr forty_two, scenario_events 1)"
    by code_simp
  have b2: "decryptValue ?t ?i (HBigInt 3) ?o (scenario_events 1) = (Inl ?e, ?end)"
    by code_simp
  have stop: "(1::nat) < length ?hs \<and> length [[], scenario_events 1] = Suc 1 \<and>
      length [forty_two] = 1 \<and> [[], scenario_events 1] ! 0 = [] \<and>
      (\<forall>i<1. decryptValue ?t ?i (?hs ! i) ?o ([[], scenario_events 1] ! i)
                = (Inr ([forty_two] ! i), [[], scenario_events 1] ! Suc i)) \<and>
      decryptValue ?t ?i (?hs ! 1) ?o ([[], scenario_events 1] ! 1) = (Inl ?e, ?end)"
    using b1 b2 by simp
  have b3: "decryptBatch ?t ?i ?hs ?o [] = (Inl ?e, ?end)"
    using decryptBatch_sequential_fail_fast
      [of ?t ?i ?hs ?o "[]" _ _ ?e ?end, THEN conjunct2, THEN iffD2,
       OF exI, OF exI, OF exI, OF stop] .
  from a1 a2 a3 b0 b1 b2 b3 show ?thesis by blast
qed

text \<open>
  Claim C10. \<^verbatim>\<open>decryptBatch\<close> on the empty list of handles returns the empty array and
  leaves the record of outside calls as it was: no signer is asked, nothing is signed and
  no request is sent. This holds for every instance, with or without a keypair, since
  \<^verbatim>\<open>decryptValue\<close> and its check \<^verbatim>\<open>hasKeypair()\<close> are never reached.
\<close>

theorem decryptBatch_empty:
  "decryptBatch w inst [] options tr = (Inr [], tr) \<and>
   decryptBatch w (inst\<lparr>hasKeypair := False\<rparr>) [] options tr = (Inr [], tr)"
  by (simp add: decryptBatch_def)

section \<open>Readiness gating\<close>

text \<open>
  Claim C5. While \<open>ready\<close> is false, the helper \<^verbatim>\<open>encrypt\<close> of \<^verbatim>\<open>useEncrypt\<close> and the
  helper \<^verbatim>\<open>decrypt\<close> of \<^verbatim>\<open>useDecrypt\<close> fail with the error
  \<^verbatim>\<open>FHEVM instance not ready. Wait for initialization.\<close>, whatever \<^verbatim>\<open>encryptValue\<close> and
  the outside world would do: the record of outside calls is unchanged (no engine,
  wallet or gateway call) and so is the state of the hook.
\<close>

theorem helpers_reject_while_not_ready:
  "\<not> ready fh \<Longrightarrow>
   useEncrypt_encrypt encryptValue fh v ty est tr = (Inl not_ready, est, tr) \<and>
   useDecrypt_decrypt w fh h options dst tr = (Inl not_ready, dst, tr)"
  by (simp add: useEncrypt_encrypt_def useDecrypt_decrypt_def split: option.splits)

theorem helpers_reject_while_not_ready_witness:
  "\<not> ready (useFhevm_initial\<lparr>fhevm_instance := Some (scenario_instance None True)\<rparr>) \<and>
   useEncrypt_encrypt scenario_encryptValue
     (useFhevm_initial\<lparr>fhevm_instance := Some (scenario_instance None True)\<rparr>)
     (JNumber 42) None idle_encrypt []
     = (Inl (Error ''FHEVM instance not ready. Wait for initialization.''), idle_encrypt, []) \<and>
   useDecrypt_decrypt (scenario_world 11155111 refuses_two)
     (useFhevm_initial\<lparr>fhevm_instance := Some (scenario_instance None True)\<rparr>)
     (HBigInt 7) (scenario_options None) idle_decrypt []
     = (Inl (Error ''FHEVM instance not ready. Wait for initialization.''), idle_decrypt, [])"
proof -
  have "\<not> ready (useFhevm_initial\<lparr>fhevm_instance := Some (scenario_instance None True)\<rparr>)"
    by (simp add: useFhevm_initial_def)
  from this helpers_reject_while_not_ready [OF this, of scenario_encryptValue "JNumber 42" None
      idle_encrypt "[]" "scenario_world 11155111 refuses_two" "HBigInt 7" "scenario_options None"
      idle_decrypt]
  show ?thesis
    by (simp add: not_ready_def)
qed

section \<open>Resolving the configuration of an instance\<close>

text \<open>The run of \<^verbatim>\<open>createFhevmInstance\<close>: the engine boots, then builds the instance.\<close>

lemma createFhevmInstance_run:
  "createFhevmInstance w config tr =
     (case initFhevm w tr of
        Inl e \<Rightarrow>
          (Inl (Error (''Failed to create FHEVM instance: '' @ message e)), tr @ [InitFhevm])
      | Inr u \<Rightarrow>
          (case createInstance w (tr @ [InitFhevm]) (merged_config config) of
             Inl e \<Rightarrow>
               (Inl (Error (''Failed to create FHEVM instance: '' @ message e)),
                tr @ [InitFhevm, CreateInstance (merged_config config)])
           | Inr inst \<Rightarrow>
               (Inr inst, tr @ [InitFhevm, CreateInstance (merged_config config)])))"
  by (simp add: createFhevmInstance_def catch_rethrow_def bind_io_def call_def Let_def
      split: sum.splits)

text \<open>
  The merge, field by field: a field of the configuration that is a non-empty string is
  passed on; otherwise the field of the network's row is. The rows for \<^verbatim>\<open>sepolia\<close>
  and \<^verbatim>\<open>localhost\<close> are as the table has them, and a name that is neither and is not
  inherited by every object gets the Sepolia row.
\<close>

lemma getNetworkDefaults_rows:
  "getNetworkDefaults ''sepolia'' = sepolia \<and>
   getNetworkDefaults ''localhost'' = localhost \<and>
   (net \<noteq> ''localhost'' \<and> net \<notin> set object_prototype_properties \<longrightarrow>
      getNetworkDefaults net = sepolia)"
  by (simp add: getNetworkDefaults_def)

lemma merged_config_resolution:
  "arg_gatewayUrl (merged_config config) =
     (if truthy (cfg_gatewayUrl config) then cfg_gatewayUrl config
      else def_gatewayUrl (getNetworkDefaults (or_default (network config) ''sepolia''))) \<and>
   arg_kmsContractAddress (merged_config config) =
     (if truthy (cfg_kmsContractAddress config) then cfg_kmsContractAddress config
      else def_kmsContractAddress (getNetworkDefaults (or_default (network config) ''sepolia''))) \<and>
   arg_aclContractAddress (merged_config config) =
     (if truthy (cfg_aclContractAddress config) then cfg_aclContractAddress config
      else def_aclContractAddress (getNetworkDefaults (or_default (network config) ''sepolia''))) \<and>
   arg_publicKey (merged_config config) = cfg_publicKey config"
  by (simp add: merged_config_def or_else_def Let_def)

lemma merged_config_localhost:
  "merged_config (empty_config\<lparr>network := Some ''localhost''\<rparr>) =
     \<lparr>arg_kmsContractAddress = Some ''0x0000000000000000000000000000000000000000'',
      arg_aclContractAddress = Some ''0x0000000000000000000000000000000000000000'',
      arg_gatewayUrl = Some ''http://localhost:8545'', arg_publicKey = None\<rparr>"
  by (simp add: merged_config_def empty_config_def or_else_def or_default_def truthy_def
      getNetworkDefaults_def localhost_def)

text \<open>
  Claim C6, at an input where the code departs from it. For the network name
  \<^verbatim>\<open>constructor\<close>, which is no row of the table, \<^verbatim>\<open>defaults[network]\<close> finds the
  property that every object inherits, the fallback to the Sepolia row is not taken, and
  the engine's \<^verbatim>\<open>createInstance\<close> is given no gateway and no contract address at all.
  An unknown name that is not inherited, such as \<^verbatim>\<open>mainnet\<close>, gets the Sepolia row.
\<close>

theorem createFhevmInstance_inherited_network_name:
  "snd (createFhevmInstance (scenario_world 11155111 refuses_two)
          (empty_config\<lparr>network := Some ''constructor''\<rparr>) [])
     = [InitFhevm,
        CreateInstance
          \<lparr>arg_kmsContractAddress = None, arg_aclContractAddress = None,
           arg_gatewayUrl = None, arg_publicKey = None\<rparr>] \<and>
   snd (createFhevmInstance (scenario_world 11155111 refuses_two)
          (empty_config\<lparr>network := Some ''mainnet''\<rparr>) [])
     = [InitFhevm,
        CreateInstance
          \<lparr>arg_kmsContractAddress = Some ''0x9D6891A6240D6130c54ae243d8005063D05fE14b'',
           arg_aclContractAddress = Some ''0xFee8407e2f5e3Ee68ad77cAE98c434e637f516e5'',
           arg_gatewayUrl = Some ''https://gateway.sepolia.zama.ai'', arg_publicKey = None\<rparr>]"
  by code_simp

section \<open>The session state\<close>

text \<open>
  Claim C8. An attempt of \<^verbatim>\<open>initialize\<close>, from any state: while the call that
  creates the instance is in flight, the error is cleared and \<open>loading\<close> is true (the
  instance and \<open>ready\<close> are still those of before); once the call has settled,
  \<open>loading\<close> is false and \<open>ready\<close> says whether the instance now held passes
  \<^verbatim>\<open>isInstanceReady\<close>. After a successful call that is the new instance, \<open>ready\<close>
  is its \<^verbatim>\<open>hasKeypair()\<close> and the error stays cleared; after a failed call the error is
  that failure, no instance is held and \<open>ready\<close> is false.
\<close>

theorem initialize_attempt:
  "initialize w config st tr = (pending, final, tr') \<Longrightarrow>
   init_error pending = None \<and> loading pending \<and>
   fhevm_instance pending = fhevm_instance st \<and> ready pending = ready st \<and>
   \<not> loading final \<and>
   ready final = isInstanceReady (fhevm_instance final) \<and>
   (\<forall>inst. fst (createFhevmInstance w config tr) = Inr inst \<longrightarrow>
      fhevm_instance final = Some inst \<and> ready final = hasKeypair inst \<and>
      init_error final = None) \<and>
   (\<forall>err. fst (createFhevmInstance w config tr) = Inl err \<longrightarrow>
      init_error final = Some err \<and> fhevm_instance final = None \<and> \<not> ready final) \<and>
   tr' = snd (createFhevmInstance w config tr)"
  by (auto simp add: initialize_def isInstanceReady_def Let_def split: prod.splits sum.splits)

theorem initialize_attempt_witness:
  "initialize (scenario_world 11155111 refuses_two) empty_config
     \<lparr>fhevm_instance = None, ready = False, init_error = Some (Error ''earlier failure''),
      loading = False\<rparr> []
     = (\<lparr>fhevm_instance = None, ready = False, init_error = None, loading = True\<rparr>,
        \<lparr>fhevm_instance =
           Some \<lparr>created_with = merged_config empty_config, hasKeypair = True,
                 getPublicKey = ''0x04ab''\<rparr>,
         ready = True, init_error = None, loading = False\<rparr>,
        [InitFhevm, CreateInstance (merged_config empty_config)]) \<and>
   initialize scenario_world_without_engine empty_config
     \<lparr>fhevm_instance = Some (scenario_instance None True), ready = True, init_error = None,
      loading = False\<rparr> []
     = (\<lparr>fhevm_instance = Some (scenario_instance None True), ready = True, init_error = None,
         loading = True\<rparr>,
        \<lparr>fhevm_instance = None, ready = False,
         init_error = Some (Error ''Failed to create FHEVM instance: wasm not found''),
         loading = False\<rparr>,
        [InitFhevm]) \<and>
   fst (createFhevmInstance scenario_world_without_engine empty_config [])
     = Inl (Error ''Failed to create FHEVM instance: wasm not found'') \<and>
   init_error \<lparr>fhevm_instance = None, ready = False,
         init_error = Some (Error ''Failed to create FHEVM instance: wasm not found''),
         loading = False\<rparr> = Some (Error ''Failed to create FHEVM instance: wasm not found'')"
proof -
  let ?before = "\<lparr>fhevm_instance = Some (scenario_instance None True), ready = True,
      init_error = None, loading = False\<rparr>"
  let ?pending = "\<lparr>fhevm_instance = Some (scenario_instance None True), ready = True,
      init_error = None, loading = True\<rparr>"
  let ?final = "\<lparr>fhevm_instance = None, ready = False,
         init_error = Some (Error ''Failed to create FHEVM instance: wasm not found''),
         loading = False\<rparr>"
  have ok_run: "initialize (scenario_world 11155111 refuses_two) empty_config
     \<lparr>fhevm_instance = None, ready = False, init_error = Some (Error ''earlier failure''),
      loading = False\<rparr> []
     = (\<lparr>fhevm_instance = None, ready = False, init_error = None, loading = True\<rparr>,
        \<lparr>fhevm_instance =
           Some \<lparr>created_with = merged_config empty_config, hasKeypair = True,
                 getPublicKey = ''0x04ab''\<rparr>,
         ready = True, init_error = None, loading = False\<rparr>,
        [InitFhevm, CreateInstance (merged_config empty_config)])"
    by code_simp
  have bad_run: "initialize scenario_world_without_engine empty_config ?before []
     = (?pending, ?final, [InitFhevm])"
    by code_simp
  have failed: "fst (createFhevmInstance scenario_world_without_engine empty_config [])
     = Inl (Error ''Failed to create FHEVM instance: wasm not found'')"
    by code_simp
  have "init_error ?final = Some (Error ''Failed to create FHEVM instance: wasm not found'')"
    using initialize_attempt [OF bad_run] failed by blast
  with ok_run bad_run failed show ?thesis by blast
qed

section \<open>Checking a signature\<close>

lemma lower_char_idem: "lower_char (lower_char c) = lower_char c"
  by (simp add: lower_char_def Let_def)

lemma toLowerCase_idem: "toLowerCase (toLowerCase s) = toLowerCase s"
  by (simp add: toLowerCase_def lower_char_idem)

text \<open>
  Claim C9. \<^verbatim>\<open>verifyDecryptSignature\<close> is a predicate: its outcome is a boolean, for
  every input, and a thrown error is no outcome of it. It is true exactly when
  \<^verbatim>\<open>ethers.verifyMessage(publicKey, signature)\<close> recovers an address that equals the
  expected one after both are put in lower case, and false when the recovery throws.
  Writing the expected address in lower case does not change the answer.
\<close>

theorem verifyDecryptSignature_predicate:
  "verifyDecryptSignature w sg pk expectedAddress =
     (\<exists>recovered. verifyMessage w pk sg = Inr recovered \<and>
        toLowerCase recovered = toLowerCase expectedAddress) \<and>
   (verifyMessage w pk sg = Inl e \<longrightarrow> verifyDecryptSignature w sg pk expectedAddress = False) \<and>
   verifyDecryptSignature w sg pk (toLowerCase expectedAddress) =
     verifyDecryptSignature w sg pk expectedAddress"
  by (auto simp add: verifyDecryptSignature_def toLowerCase_idem split: sum.splits)

theorem verifyDecryptSignature_predicate_witness:
  "verifyMessage (scenario_world 11155111 refuses_two) ''0x04ab'' ''0xbad''
     = Inl (Error ''invalid signature'') \<and>
   verifyDecryptSignature (scenario_world 11155111 refuses_two) ''0xbad'' ''0x04ab'' ''0xAbC1''
     = False \<and>
   verifyDecryptSignature (scenario_world 11155111 refuses_two) ''0x51'' ''0x04ab'' ''0xABC1''
     = True \<and>
   verifyDecryptSignature (scenario_world 11155111 refuses_two) ''0x51'' ''0x04ab'' ''0xABC2''
     = False"
proof -
  let ?w = "scenario_world 11155111 refuses_two"
  have bad: "verifyMessage ?w ''0x04ab'' ''0xbad'' = Inl (Error ''invalid signature'')"
    by code_simp
  have good: "verifyMessage ?w ''0x04ab'' ''0x51'' = Inr ''0xAbC1''"
    by code_simp
  have same: "toLowerCase ''0xAbC1'' = toLowerCase ''0xABC1''"
    by code_simp
  have other: "toLowerCase ''0xAbC1'' \<noteq> toLowerCase ''0xABC2''"
    by code_simp
  have "verifyDecryptSignature ?w ''0xbad'' ''0x04ab'' ''0xAbC1'' = False"
    using verifyDecryptSignature_predicate [of ?w "''0xbad''" "''0x04ab''" "''0xAbC1''"
        "Error ''invalid signature''"] bad
    by blast
  moreover have "verifyDecryptSignature ?w ''0x51'' ''0x04ab'' ''0xABC1'' = True"
    using verifyDecryptSignature_predicate [of ?w "''0x51''" "''0x04ab''" "''0xABC1''"]
      good same
    by simp
  moreover have "verifyDecryptSignature ?w ''0x51'' ''0x04ab'' ''0xABC2'' = False"
    using verifyDecryptSignature_predicate [of ?w "''0x51''" "''0x04ab''" "''0xABC2''"]
      good other
    by simp
  ultimately show ?thesis using bad by blast
qed

end
